theory Spec2Isabelle
  imports Complex_Main "HOL-Library.Word" "HOL-Library.Product_Lexorder"
begin

unbundle bit_operations_syntax

section \<open>Strings\<close>

text \<open>
  Strings are ASCII byte strings. \<open>toUpperCase\<close> is JavaScript's
  \<^verbatim>\<open>String.prototype.toUpperCase\<close> on such strings: the 26 lower-case letters are
  mapped to their capitals and every other byte is kept. \<open>str_includes\<close> is
  \<^verbatim>\<open>String.prototype.includes\<close>: the second string occurs as a contiguous substring.
\<close>

definition upper_table :: "(char \<times> char) list" where
  "upper_table = zip ''abcdefghijklmnopqrstuvwxyz'' ''ABCDEFGHIJKLMNOPQRSTUVWXYZ''"

definition toUpperCase :: "string \<Rightarrow> string" where
  "toUpperCase s = map (\<lambda>c. case map_of upper_table c of Some u \<Rightarrow> u | None \<Rightarrow> c) s"

fun str_includes :: "string \<Rightarrow> string \<Rightarrow> bool" where
  "str_includes [] sub = (sub = [])"
| "str_includes (c # cs) sub = (take (length sub) (c # cs) = sub \<or> str_includes cs sub)"

section \<open>MD5\<close>

text \<open>
  \<open>md5\<close> is \<^verbatim>\<open>crypto.createHash('md5').update(s).digest('hex')\<close>: the MD5 digest
  (RFC 1321) of the string's bytes, as 32 lower-case hexadecimal digits. The state is
  four 32-bit words; a message is padded with the byte 128, zero bytes up to 56 modulo
  64 and its length in bits as eight little-endian bytes, and consumed in blocks of
  sixteen little-endian words, 64 steps a block.
\<close>

definition md5_K :: "32 word list" where
  "md5_K =
    [0xd76aa478, 0xe8c7b756, 0x242070db, 0xc1bdceee, 0xf57c0faf, 0x4787c62a,
     0xa8304613, 0xfd469501, 0x698098d8, 0x8b44f7af, 0xffff5bb1, 0x895cd7be,
     0x6b901122, 0xfd987193, 0xa679438e, 0x49b40821, 0xf61e2562, 0xc040b340,
     0x265e5a51, 0xe9b6c7aa, 0xd62f105d, 0x02441453, 0xd8a1e681, 0xe7d3fbc8,
     0x21e1cde6, 0xc33707d6, 0xf4d50d87, 0x455a14ed, 0xa9e3e905, 0xfcefa3f8,
     0x676f02d9, 0x8d2a4c8a, 0xfffa3942, 0x8771f681, 0x6d9d6122, 0xfde5380c,
     0xa4beea44, 0x4bdecfa9, 0xf6bb4b60, 0xbebfbc70, 0x289b7ec6, 0xeaa127fa,
     0xd4ef3085, 0x04881d05, 0xd9d4d039, 0xe6db99e5, 0x1fa27cf8, 0xc4ac5665,
     0xf4292244, 0x432aff97, 0xab9423a7, 0xfc93a039, 0x655b59c3, 0x8f0ccc92,
     0xffeff47d, 0x85845dd1, 0x6fa87e4f, 0xfe2ce6e0, 0xa3014314, 0x4e0811a1,
     0xf7537e82, 0xbd3af235, 0x2ad7d2bb, 0xeb86d391]"

definition md5_s :: "nat list" where
  "md5_s =
    [7, 12, 17, 22, 7, 12, 17, 22, 7, 12, 17, 22, 7, 12, 17, 22,
     5, 9, 14, 20, 5, 9, 14, 20, 5, 9, 14, 20, 5, 9, 14, 20,
     4, 11, 16, 23, 4, 11, 16, 23, 4, 11, 16, 23, 4, 11, 16, 23,
     6, 10, 15, 21, 6, 10, 15, 21, 6, 10, 15, 21, 6, 10, 15, 21]"

type_synonym md5_state = "32 word \<times> 32 word \<times> 32 word \<times> 32 word"

fun md5_step :: "32 word list \<Rightarrow> md5_state \<Rightarrow> nat \<Rightarrow> md5_state" where
  "md5_step M (a, b, c, d) i =
     (let (f, g) =
        (if i < 16 then ((b AND c) OR (NOT b AND d), i)
         else if i < 32 then ((d AND b) OR (NOT d AND c), (5 * i + 1) mod 16)
         else if i < 48 then (b XOR c XOR d, (3 * i + 5) mod 16)
         else (c XOR (b OR NOT d), (7 * i) mod 16));
        f2 = f + a + md5_K ! i + M ! g
      in (d, b + word_rotl (md5_s ! i) f2, b, c))"

definition md5_block :: "md5_state \<Rightarrow> 32 word list \<Rightarrow> md5_state" where
  "md5_block st M =
     (case st of (a0, b0, c0, d0) \<Rightarrow>
        (case foldl (md5_step M) st [0..<64] of (a, b, c, d) \<Rightarrow>
           (a0 + a, b0 + b, c0 + c, d0 + d)))"

definition md5_pad :: "int list \<Rightarrow> int list" where
  "md5_pad bs = bs @ [128] @ replicate ((119 - length bs mod 64) mod 64) 0
       @ map (\<lambda>k. (8 * int (length bs)) div 256 ^ k mod 256) [0..<8]"

fun le_words :: "int list \<Rightarrow> 32 word list" where
  "le_words (b0 # b1 # b2 # b3 # rest) =
     of_int (b0 + 256 * b1 + 65536 * b2 + 16777216 * b3) # le_words rest"
| "le_words _ = []"

fun md5_blocks :: "md5_state \<Rightarrow> 32 word list \<Rightarrow> md5_state" where
  "md5_blocks st ws = (if length ws < 16 then st
                       else md5_blocks (md5_block st (take 16 ws)) (drop 16 ws))"

declare md5_blocks.simps [simp del]

definition hex_digit :: "int \<Rightarrow> char" where
  "hex_digit n = ''0123456789abcdef'' ! nat n"

definition hex_byte :: "int \<Rightarrow> string" where
  "hex_byte b = [hex_digit (b div 16), hex_digit (b mod 16)]"

definition le_hex :: "32 word \<Rightarrow> string" where
  "le_hex w = concat (map (\<lambda>k. hex_byte (uint w div 256 ^ k mod 256)) [0..<4])"

definition md5 :: "string \<Rightarrow> string" where
  "md5 s =
     (case md5_blocks (0x67452301, 0xefcdab89, 0x98badcfe, 0x10325476)
             (le_words (md5_pad (map of_char s))) of
        (a, b, c, d) \<Rightarrow> le_hex a @ le_hex b @ le_hex c @ le_hex d)"

section \<open>JavaScript numbers\<close>

text \<open>
  A JavaScript \<^verbatim>\<open>number\<close> is an IEEE 754 binary64 value. A finite one is the real
  number it denotes (the two zeros are identified); the three others are kept apart.
  Every arithmetic operation returns the exact result rounded to the nearest binary64
  value, ties to the even significand (\<open>fl\<close>), and an overflowing result is an infinity.

  \<open>exponent x\<close> is the binary exponent \<open>e\<close> with \<open>2 ^ e \<le> \<bar>x\<bar> < 2 ^ (e + 1)\<close>,
  \<open>ulp x\<close> the spacing of binary64 values around \<open>x\<close> (53 significant bits, the
  exponent never below \<open>-1022\<close>, which covers the subnormal range).
\<close>

datatype number = Finite real | PosInf | NegInf | NaN

fun bitlength :: "nat \<Rightarrow> nat" where
  "bitlength n = (if n = 0 then 0 else Suc (bitlength (n div 2)))"

declare bitlength.simps [simp del]

definition exponent :: "real \<Rightarrow> int" where
  "exponent x = (if 1 \<le> \<bar>x\<bar> then int (bitlength (nat \<lfloor>\<bar>x\<bar>\<rfloor>)) - 1
                 else - int (bitlength (nat (\<lceil>1 / \<bar>x\<bar>\<rceil> - 1))))"

definition roundTiesToEven :: "real \<Rightarrow> int" where
  "roundTiesToEven x = (let f = \<lfloor>x\<rfloor>; d = x - of_int f in
     if d < 1 / 2 then f else if 1 / 2 < d then f + 1 else if even f then f else f + 1)"

definition ulp :: "real \<Rightarrow> real" where
  "ulp x = 2 powi (max (exponent x) (- 1022) - 52)"

definition fl :: "real \<Rightarrow> real" where
  "fl x = of_int (roundTiesToEven (x / ulp x)) * ulp x"

definition MAX_VALUE :: real where
  "MAX_VALUE = (2 ^ 53 - 1) * 2 ^ 971"

definition toNumber :: "real \<Rightarrow> number" where
  "toNumber x = (let y = fl x in
     if MAX_VALUE < y then PosInf else if y < - MAX_VALUE then NegInf else Finite y)"

fun num_neg :: "number \<Rightarrow> number" where
  "num_neg (Finite a) = Finite (- a)"
| "num_neg PosInf = NegInf"
| "num_neg NegInf = PosInf"
| "num_neg NaN = NaN"

fun num_add :: "number \<Rightarrow> number \<Rightarrow> number" where
  "num_add (Finite a) (Finite b) = toNumber (a + b)"
| "num_add NaN y = NaN"
| "num_add x NaN = NaN"
| "num_add (Finite a) y = y"
| "num_add x (Finite b) = x"
| "num_add x y = (if x = y then x else NaN)"

definition num_sub :: "number \<Rightarrow> number \<Rightarrow> number" where
  "num_sub x y = num_add x (num_neg y)"

fun num_mul :: "number \<Rightarrow> number \<Rightarrow> number" where
  "num_mul (Finite a) (Finite b) = toNumber (a * b)"
| "num_mul NaN y = NaN"
| "num_mul x NaN = NaN"
| "num_mul (Finite a) y = (if a = 0 then NaN else if 0 < a then y else num_neg y)"
| "num_mul x (Finite b) = (if b = 0 then NaN else if 0 < b then x else num_neg x)"
| "num_mul x y = (if x = y then PosInf else NegInf)"

text \<open>
  Division by a zero is taken by the positive zero; every divisor in the modelled code
  is a non-zero literal.
\<close>

fun num_div :: "number \<Rightarrow> number \<Rightarrow> number" where
  "num_div (Finite a) (Finite b) =
     (if b = 0 then (if a = 0 then NaN else if 0 < a then PosInf else NegInf)
      else toNumber (a / b))"
| "num_div NaN y = NaN"
| "num_div x NaN = NaN"
| "num_div (Finite a) y = Finite 0"
| "num_div x (Finite b) = (if 0 \<le> b then x else num_neg x)"
| "num_div x y = NaN"

text \<open>
  \<^verbatim>\<open>Math.round\<close>: the nearest integer, a tie going towards \<open>+\<infinity>\<close>. The result is exact.
\<close>

fun Math_round :: "number \<Rightarrow> number" where
  "Math_round (Finite a) = Finite (of_int \<lfloor>a + 1 / 2\<rfloor>)"
| "Math_round x = x"

text \<open>The comparison \<^verbatim>\<open><=\<close> of JavaScript: false whenever an operand is \<^verbatim>\<open>NaN\<close>.\<close>

fun num_le :: "number \<Rightarrow> number \<Rightarrow> bool" where
  "num_le (Finite a) (Finite b) = (a \<le> b)"
| "num_le NaN y = False"
| "num_le x NaN = False"
| "num_le NegInf y = True"
| "num_le x PosInf = True"
| "num_le x y = False"

text \<open>A numeric literal of the source denotes the nearest binary64 value.\<close>

definition lit :: "real \<Rightarrow> number" where
  "lit x = toNumber x"

section \<open>Data model\<close>

text \<open>
  Modelled from the spec: the Prisma enums \<^verbatim>\<open>BookingStatus\<close> and \<^verbatim>\<open>PaymentStatus\<close> are
  imported from the generated client, which is not among the sources; their members are
  the states of the booking lifecycle and of the escrow ledger. The payment states carry
  the prefix \<open>Pay_\<close> because \<open>PENDING\<close> occurs in both enums.
\<close>

datatype BookingStatus =
  PENDING | MATCHED | CONFIRMED | IN_PROGRESS | COMPLETED | CANCELLED | DISPUTED

datatype PaymentStatus =
  Pay_PENDING | Pay_HELD_IN_ESCROW | Pay_RELEASED | Pay_REFUNDED | Pay_FAILED

fun BookingStatus_text :: "BookingStatus \<Rightarrow> string" where
  "BookingStatus_text PENDING = ''PENDING''"
| "BookingStatus_text MATCHED = ''MATCHED''"
| "BookingStatus_text CONFIRMED = ''CONFIRMED''"
| "BookingStatus_text IN_PROGRESS = ''IN_PROGRESS''"
| "BookingStatus_text COMPLETED = ''COMPLETED''"
| "BookingStatus_text CANCELLED = ''CANCELLED''"
| "BookingStatus_text DISPUTED = ''DISPUTED''"

fun PaymentStatus_text :: "PaymentStatus \<Rightarrow> string" where
  "PaymentStatus_text Pay_PENDING = ''PENDING''"
| "PaymentStatus_text Pay_HELD_IN_ESCROW = ''HELD_IN_ESCROW''"
| "PaymentStatus_text Pay_RELEASED = ''RELEASED''"
| "PaymentStatus_text Pay_REFUNDED = ''REFUNDED''"
| "PaymentStatus_text Pay_FAILED = ''FAILED''"

text \<open>
  The rows of the tables the services read and write, with the columns they touch, and
  the availability flag of a profile (\<^verbatim>\<open>Profile.isAvailable\<close>, set by the verification
  controller). A field name carries the table's initial where the column name alone is
  taken (\<open>id\<close>) or shared between tables. A geography point is
  \<open>(longitude, latitude)\<close>, as \<^verbatim>\<open>ST_MakePoint\<close> takes it.

  A JavaScript \<^verbatim>\<open>Date\<close> holds a time value, the milliseconds since the epoch, or is an
  Invalid Date. \<^verbatim>\<open>new Date(text)\<close> parses the text and \<^verbatim>\<open>toISOString\<close> writes a time value
  as \<^verbatim>\<open>YYYY-MM-DDTHH:mm:ss.sssZ\<close>. Both belong to the language and are parameters here:
  \<open>Date_parse\<close> gives the time value of a text, or \<open>None\<close> for a text that is no date, and
  \<open>isoText\<close> the text of a time value.
\<close>

type_synonym point = "real \<times> real"

datatype Date = TimeValue int | Invalid_Date

definition newDate :: "(string \<Rightarrow> int option) \<Rightarrow> string \<Rightarrow> Date" where
  "newDate Date_parse text = (case Date_parse text of None \<Rightarrow> Invalid_Date | Some t \<Rightarrow> TimeValue t)"

record user =
  u_id :: string
  u_role :: string
  u_is_active :: bool

record profile =
  p_user_id :: string
  p_full_name :: string
  p_location :: "point option"
  p_isAvailable :: bool
  p_emergencyName :: "string option"
  p_emergencyPhone :: "string option"

record providerSkill =
  ps_provider_id :: string
  ps_service_category_id :: string
  ps_is_verified :: bool
  ps_skill_trust_score :: real
  ps_years_experience :: int

record serviceCategory =
  sc_id :: string
  sc_name :: string
  sc_slug :: string
  sc_isActive :: bool

record booking =
  b_id :: string
  b_customerId :: string
  b_serviceCategoryId :: string
  b_status :: BookingStatus
  b_paymentStatus :: PaymentStatus
  b_careRecipientName :: string
  b_locationLat :: real
  b_locationLng :: real
  b_locationAddress :: "string option"
  b_scheduledDate :: Date
  b_notes :: "string option"
  b_cancellationReason :: "string option"
  b_createdAt :: Date

text \<open>
  An audit row stores \<^verbatim>\<open>JSON.stringify\<close> of an object; the model keeps the object.
\<close>

datatype json = JString string | JBoolean bool | JNumber number | JObject "(string \<times> json) list"

record auditLog =
  a_userId :: "string option"
  a_action :: string
  a_entityType :: string
  a_entityId :: string
  a_oldValues :: "json option"
  a_newValues :: json
  a_reason :: "string option"

record db =
  users :: "user list"
  profiles :: "profile list"
  providerSkills :: "providerSkill list"
  serviceCategories :: "serviceCategory list"
  bookings :: "booking list"
  auditLogs :: "auditLog list"

text \<open>
  What a function throws. \<open>Error\<close> is the plain JavaScript error with its message,
  \<open>TypeError\<close> a method call on \<^verbatim>\<open>null\<close>, \<open>RangeError\<close> what \<^verbatim>\<open>toISOString\<close> throws on
  an Invalid Date, \<open>RecordNotFound\<close> what Prisma's
  \<^verbatim>\<open>update\<close> throws when no row has the key, the others the classes of
  \<^verbatim>\<open>errors/AppError.ts\<close> (all subclasses of \<^verbatim>\<open>AppError\<close> except \<open>Unknown\<close>, which
  stands for whatever a failing database call throws).
\<close>

datatype thrown =
  Error string
| TypeError
| RangeError
| RecordNotFound
| Unknown
| AppError string
| CustomerNotFoundError string
| ServiceCategoryNotFoundError string
| DatabaseError string
| GeospatialQueryError string

fun toISOString :: "(int \<Rightarrow> string) \<Rightarrow> Date \<Rightarrow> thrown + string" where
  "toISOString isoText (TimeValue t) = Inr (isoText t)"
| "toISOString isoText Invalid_Date = Inl RangeError"

text \<open>\<^verbatim>\<open>prisma.booking.findUnique\<close> and \<^verbatim>\<open>prisma.booking.update\<close> by primary key.\<close>

definition findBooking :: "db \<Rightarrow> string \<Rightarrow> booking option" where
  "findBooking d k = find (\<lambda>b. b_id b = k) (bookings d)"

definition updateBooking :: "string \<Rightarrow> (booking \<Rightarrow> booking) \<Rightarrow> db \<Rightarrow> thrown + db" where
  "updateBooking k f d =
     (case findBooking d k of
        None \<Rightarrow> Inl RecordNotFound
      | Some _ \<Rightarrow> Inr (d\<lparr>bookings := map (\<lambda>b. if b_id b = k then f b else b) (bookings d)\<rparr>))"

definition createAuditLog :: "auditLog \<Rightarrow> db \<Rightarrow> db" where
  "createAuditLog a d = d\<lparr>auditLogs := auditLogs d @ [a]\<rparr>"

section \<open>Emergency escalation\<close>

datatype TriggeredBy = CUSTOMER | PROVIDER

fun TriggeredBy_text :: "TriggeredBy \<Rightarrow> string" where
  "TriggeredBy_text CUSTOMER = ''CUSTOMER''"
| "TriggeredBy_text PROVIDER = ''PROVIDER''"

record EmergencyEscalationInput =
  shiftId :: string
  triggeredBy :: TriggeredBy
  triggeredByUserId :: string
  reason :: "string option"
  location :: "(real \<times> real) option"

record EmergencyEscalationResult =
  success :: bool
  emergencyNumber :: string
  shiftFrozen :: bool
  smsSent :: bool
  incidentReported :: bool

record sms =
  sms_to :: string
  sms_message :: string
  sms_senderId :: string

definition DEFAULT_EMERGENCY_NUMBER :: string where
  "DEFAULT_EMERGENCY_NUMBER = ''1990''"

definition SMS_SENDER_ID :: string where
  "SMS_SENDER_ID = ''CareLink''"

definition hospitalEmergencyNumbers :: "(string \<times> string) list" where
  "hospitalEmergencyNumbers =
     [(''COLOMBO GENERAL HOSPITAL'', ''011-2691111''),
      (''NATIONAL HOSPITAL'', ''011-2691111''),
      (''ASIRI HOSPITAL'', ''011-4665500''),
      (''NAWALOKA HOSPITAL'', ''011-5777777''),
      (''DURDANS HOSPITAL'', ''011-2140000''),
      (''LANKA HOSPITALS'', ''011-5530000'')]"

text \<open>The loop over the table's entries: the first hospital the address names wins.\<close>

fun hospitalMatch :: "(string \<times> string) list \<Rightarrow> string \<Rightarrow> string option" where
  "hospitalMatch [] locationUpper = None"
| "hospitalMatch ((hospital, n) # rest) locationUpper =
     (if str_includes locationUpper hospital then Some n else hospitalMatch rest locationUpper)"

text \<open>
  \<open>determineEmergencyNumber\<close> takes the shift's address; on \<^verbatim>\<open>null\<close> the call of
  \<^verbatim>\<open>toUpperCase\<close> throws.
\<close>

definition determineEmergencyNumber :: "string option \<Rightarrow> thrown + string" where
  "determineEmergencyNumber locationAddress =
     (case locationAddress of
        None \<Rightarrow> Inl TypeError
      | Some address \<Rightarrow>
          (case hospitalMatch hospitalEmergencyNumbers (toUpperCase address) of
             Some n \<Rightarrow> Inr n
           | None \<Rightarrow> Inr DEFAULT_EMERGENCY_NUMBER))"

text \<open>A JavaScript string is truthy when it is present and not empty.\<close>

fun truthy :: "string option \<Rightarrow> bool" where
  "truthy None = False"
| "truthy (Some s) = (s \<noteq> [])"

definition orElse :: "string option \<Rightarrow> string \<Rightarrow> string" where
  "orElse s d = (if truthy s then the s else d)"

text \<open>
  \<open>sendSMS\<close> is the SMS gateway: \<open>True\<close> when the call returns, \<open>False\<close> when it throws.
\<close>

definition sendEmergencySMS ::
  "(sms \<Rightarrow> bool) \<Rightarrow> booking \<Rightarrow> profile option \<Rightarrow> string \<Rightarrow> TriggeredBy \<Rightarrow> string \<Rightarrow> bool" where
  "sendEmergencySMS sendSMS shift customerProfile address trig emergencyNo =
     (let emergencyContact = (case customerProfile of None \<Rightarrow> None | Some p \<Rightarrow> p_emergencyPhone p) in
      if \<not> truthy emergencyContact then False
      else
        let customerName = orElse (map_option p_full_name customerProfile) ''A CareLink customer'';
            careRecipientName = orElse (Some (b_careRecipientName shift)) ''care recipient'';
            triggeredByText = (if trig = CUSTOMER then ''the customer'' else ''the care companion'');
            message = ''CareLink EMERGENCY ALERT: '' @ customerName
              @ '' has triggered an emergency for '' @ careRecipientName
              @ '' at '' @ address
              @ ''. Emergency services contacted: '' @ emergencyNo
              @ ''. This was triggered by '' @ triggeredByText
              @ ''. Please check immediately. - CareLink''
        in sendSMS \<lparr>sms_to = the emergencyContact, sms_message = message,
                     sms_senderId = SMS_SENDER_ID\<rparr>)"

definition escalatable :: "BookingStatus \<Rightarrow> bool" where
  "escalatable s = (s \<in> set [IN_PROGRESS, MATCHED, CONFIRMED])"

definition escalateEmergency ::
  "(sms \<Rightarrow> bool) \<Rightarrow> EmergencyEscalationInput \<Rightarrow> db \<Rightarrow> (thrown + EmergencyEscalationResult) \<times> db" where
  "escalateEmergency sendSMS input d =
     (case findBooking d (shiftId input) of
        None \<Rightarrow> (Inl (Error (''Shift not found: '' @ shiftId input)), d)
      | Some shift \<Rightarrow>
          if \<not> escalatable (b_status shift)
          then (Inl (Error (''Cannot escalate emergency for shift in status: ''
                       @ BookingStatus_text (b_status shift))), d)
          else
            (case updateBooking (shiftId input)
                    (\<lambda>b. b\<lparr>b_status := DISPUTED,
                            b_cancellationReason := Some (''EMERGENCY_ESCALATION: Triggered by ''
                              @ TriggeredBy_text (triggeredBy input) @ ''. Reason: ''
                              @ orElse (reason input) ''Not specified'')\<rparr>) d of
               Inl e \<Rightarrow> (Inl e, d)
             | Inr d1 \<Rightarrow>
                 (case determineEmergencyNumber (b_locationAddress shift) of
                    Inl e \<Rightarrow> (Inl e, d1)
                  | Inr emergencyNo \<Rightarrow>
                      let customerProfile = find (\<lambda>p. p_user_id p = b_customerId shift) (profiles d1);
                          sent = (if truthy (case customerProfile of None \<Rightarrow> None
                                             | Some p \<Rightarrow> p_emergencyPhone p)
                                  then sendEmergencySMS sendSMS shift customerProfile
                                         (the (b_locationAddress shift)) (triggeredBy input) emergencyNo
                                  else False);
                          d2 = createAuditLog
                                 \<lparr>a_userId = Some (triggeredByUserId input),
                                  a_action = ''EMERGENCY_ESCALATION'',
                                  a_entityType = ''Booking'',
                                  a_entityId = shiftId input,
                                  a_oldValues = Some (JObject
                                    [(''status'', JString (BookingStatus_text (b_status shift)))]),
                                  a_newValues = JObject
                                    [(''status'', JString (BookingStatus_text DISPUTED)),
                                     (''incidentReported'', JBoolean True),
                                     (''triggeredBy'', JString (TriggeredBy_text (triggeredBy input))),
                                     (''emergencyNumber'', JString emergencyNo),
                                     (''smsSent'', JBoolean sent)],
                                  a_reason = Some (orElse (reason input) ''Emergency button pressed'')\<rparr> d1
                      in (Inr \<lparr>success = True, emergencyNumber = emergencyNo, shiftFrozen = True,
                               smsSent = sent, incidentReported = True\<rparr>, d2))))"

section \<open>Payment gateway notifications and escrow\<close>

text \<open>
  \<open>getPayHereConfig()\<close> returns the configuration of the environment, read from
  \<^verbatim>\<open>process.env\<close>; the model takes it as a parameter, and so it takes the JavaScript
  global \<open>parseFloat\<close>, which belongs to the runtime.
\<close>

record config =
  checkoutUrl :: string
  apiUrl :: string
  merchantId :: string
  merchantSecret :: string
  appId :: string
  appSecret :: string

record PayHereNotification =
  merchant_id :: string
  order_id :: string
  payment_id :: string
  payhere_amount :: string
  payhere_currency :: string
  status_code :: string
  status_message :: string
  n_method :: string
  card_holder_name :: "string option"
  card_no :: "string option"
  card_expiry :: "string option"
  md5sig :: string
  custom_1 :: "string option"
  custom_2 :: "string option"

text \<open>
  The status of a verification is one of four strings. \<open>VS_inherited\<close> is what
  \<^verbatim>\<open>statusMap[statusCode]\<close> yields when the status code names a property every object
  inherits (\<^verbatim>\<open>constructor\<close>, \<^verbatim>\<open>toString\<close>, ...): a truthy value that is none of the
  four strings.
\<close>

datatype VerificationStatus = VS_SUCCESS | VS_FAILED | VS_PENDING | VS_CANCELLED | VS_inherited

fun VerificationStatus_text :: "VerificationStatus \<Rightarrow> string" where
  "VerificationStatus_text VS_SUCCESS = ''SUCCESS''"
| "VerificationStatus_text VS_FAILED = ''FAILED''"
| "VerificationStatus_text VS_PENDING = ''PENDING''"
| "VerificationStatus_text VS_CANCELLED = ''CANCELLED''"
| "VerificationStatus_text VS_inherited = ''[object]''"

record PaymentVerificationResult =
  v_valid :: bool
  v_status :: VerificationStatus
  v_orderId :: string
  v_paymentId :: string
  v_amount :: number
  v_currency :: string
  v_method :: string
  v_message :: string

definition generateNotificationHash ::
  "string \<Rightarrow> string \<Rightarrow> string \<Rightarrow> string \<Rightarrow> string \<Rightarrow> string \<Rightarrow> string" where
  "generateNotificationHash merchantId' orderId amount currency statusCode merchantSecret' =
     (let secretHash = toUpperCase (md5 merchantSecret');
          hashString = merchantId' @ orderId @ amount @ currency @ statusCode @ secretHash
      in toUpperCase (md5 hashString))"

definition statusMap :: "(string \<times> VerificationStatus) list" where
  "statusMap = [(''2'', VS_SUCCESS), (''0'', VS_PENDING), (''-1'', VS_CANCELLED),
                (''-2'', VS_FAILED), (''-3'', VS_FAILED)]"

definition Object_prototype :: "string list" where
  "Object_prototype = [''constructor'', ''__proto__'', ''hasOwnProperty'', ''isPrototypeOf'',
     ''propertyIsEnumerable'', ''toLocaleString'', ''toString'', ''valueOf'',
     ''__defineGetter__'', ''__defineSetter__'', ''__lookupGetter__'', ''__lookupSetter__'']"

definition mapStatusCode :: "string \<Rightarrow> VerificationStatus" where
  "mapStatusCode statusCode =
     (case map_of statusMap statusCode of
        Some st \<Rightarrow> st
      | None \<Rightarrow> if statusCode \<in> set Object_prototype then VS_inherited else VS_FAILED)"

definition verifyPaymentNotification ::
  "(string \<Rightarrow> number) \<Rightarrow> config \<Rightarrow> PayHereNotification \<Rightarrow> PaymentVerificationResult" where
  "verifyPaymentNotification parseFloat cfg notification =
     (let expectedSig = generateNotificationHash (merchant_id notification)
            (order_id notification) (payhere_amount notification)
            (payhere_currency notification) (status_code notification) (merchantSecret cfg)
      in if toUpperCase (md5sig notification) \<noteq> toUpperCase expectedSig
         then \<lparr>v_valid = False, v_status = VS_FAILED, v_orderId = order_id notification,
               v_paymentId = payment_id notification,
               v_amount = parseFloat (payhere_amount notification),
               v_currency = payhere_currency notification, v_method = n_method notification,
               v_message = ''Invalid signature - possible spoofing attempt''\<rparr>
         else \<lparr>v_valid = True, v_status = mapStatusCode (status_code notification),
               v_orderId = order_id notification, v_paymentId = payment_id notification,
               v_amount = parseFloat (payhere_amount notification),
               v_currency = payhere_currency notification, v_method = n_method notification,
               v_message = status_message notification\<rparr>)"

fun mapToPrismaPaymentStatus :: "VerificationStatus \<Rightarrow> PaymentStatus" where
  "mapToPrismaPaymentStatus VS_SUCCESS = Pay_HELD_IN_ESCROW"
| "mapToPrismaPaymentStatus VS_FAILED = Pay_FAILED"
| "mapToPrismaPaymentStatus VS_CANCELLED = Pay_PENDING"
| "mapToPrismaPaymentStatus _ = Pay_PENDING"

definition paymentAudit :: "string \<Rightarrow> PaymentVerificationResult \<Rightarrow> auditLog" where
  "paymentAudit bookingId verification =
     \<lparr>a_userId = None, a_action = ''PAYMENT_NOTIFICATION'', a_entityType = ''Booking'',
      a_entityId = bookingId, a_oldValues = None,
      a_newValues = JObject
        [(''paymentId'', JString (v_paymentId verification)),
         (''status'', JString (VerificationStatus_text (v_status verification))),
         (''amount'', JNumber (v_amount verification)),
         (''method'', JString (v_method verification))],
      a_reason = Some (''PayHere payment '' @ VerificationStatus_text (v_status verification)
                        @ '': '' @ v_message verification)\<rparr>"

definition handlePaymentNotification ::
  "(string \<Rightarrow> number) \<Rightarrow> config \<Rightarrow> PayHereNotification \<Rightarrow> db \<Rightarrow> (thrown + unit) \<times> db" where
  "handlePaymentNotification parseFloat cfg notification d =
     (let verification = verifyPaymentNotification parseFloat cfg notification in
      if \<not> v_valid verification
      then (Inl (Error ''Invalid payment notification signature''), d)
      else if \<not> truthy (custom_1 notification)
      then (Inl (Error ''Booking ID not found in notification custom params''), d)
      else
        let bookingId = the (custom_1 notification);
            paymentStatus = mapToPrismaPaymentStatus (v_status verification)
        in case updateBooking bookingId (\<lambda>b. b\<lparr>b_paymentStatus := paymentStatus\<rparr>) d of
             Inl e \<Rightarrow> (Inl e, d)
           | Inr d1 \<Rightarrow>
               (case (if v_status verification = VS_SUCCESS
                      then updateBooking bookingId
                             (\<lambda>b. b\<lparr>b_paymentStatus := Pay_HELD_IN_ESCROW\<rparr>) d1
                      else Inr d1) of
                  Inl e \<Rightarrow> (Inl e, d1)
                | Inr d2 \<Rightarrow> (Inr (), createAuditLog (paymentAudit bookingId verification) d2)))"

text \<open>\<open>now\<close> is \<^verbatim>\<open>new Date().toISOString()\<close> at the time of the call.\<close>

definition releaseEscrowPayment :: "string \<Rightarrow> string \<Rightarrow> db \<Rightarrow> (thrown + unit) \<times> db" where
  "releaseEscrowPayment now bookingId d =
     (case findBooking d bookingId of
        None \<Rightarrow> (Inl (Error (''Booking not found: '' @ bookingId)), d)
      | Some b \<Rightarrow>
          if b_paymentStatus b \<noteq> Pay_HELD_IN_ESCROW
          then (Inl (Error (''Cannot release payment. Current status: ''
                       @ PaymentStatus_text (b_paymentStatus b))), d)
          else
            (case updateBooking bookingId (\<lambda>b. b\<lparr>b_paymentStatus := Pay_RELEASED\<rparr>) d of
               Inl e \<Rightarrow> (Inl e, d)
             | Inr d1 \<Rightarrow>
                 (Inr (), createAuditLog
                    \<lparr>a_userId = None, a_action = ''PAYMENT_RELEASED'', a_entityType = ''Booking'',
                     a_entityId = bookingId, a_oldValues = None,
                     a_newValues = JObject
                       [(''paymentStatus'', JString (PaymentStatus_text Pay_RELEASED)),
                        (''releasedAt'', JString now)],
                     a_reason = None\<rparr> d1)))"

text \<open>
  The fee split. \<^verbatim>\<open>PLATFORM_FEE_PERCENTAGE\<close> is the number 10; the product is evaluated from
  the left, as JavaScript does.
\<close>

definition PLATFORM_FEE_PERCENTAGE :: number where
  "PLATFORM_FEE_PERCENTAGE = lit 10"

record PaymentBreakdown =
  totalAmount :: number
  platformFee :: number
  providerPayout :: number

definition calculatePaymentBreakdown :: "number \<Rightarrow> PaymentBreakdown" where
  "calculatePaymentBreakdown gross =
     (let fee = num_div
            (Math_round (num_mul (num_mul gross (num_div PLATFORM_FEE_PERCENTAGE (lit 100)))
                           (lit 100)))
            (lit 100);
          payout = num_sub gross fee
      in \<lparr>totalAmount = gross, platformFee = fee, providerPayout = payout\<rparr>)"

section \<open>Provider matching\<close>

text \<open>
  The matching query is SQL run by PostgreSQL with PostGIS; the model evaluates it on
  the tables. The two PostGIS functions of the query are parameters: \<open>ST_Distance\<close>, the
  distance in meters the database reports for two geography points, and \<open>ST_DWithin\<close>,
  its test that two points are within a distance of each other. The query compares no
  distance itself. \<^verbatim>\<open>ORDER BY skill_trust_score DESC, distance_meters ASC\<close> sorts on the pair of
  the negated score and the distance, ordered lexicographically, and \<^verbatim>\<open>LIMIT\<close> keeps
  the first rows. Among rows equal in both keys SQL fixes no order; the model keeps the
  order of the join.
\<close>

definition SEARCH_RADIUS_METERS :: real where
  "SEARCH_RADIUS_METERS = 10000"

definition MAX_PROVIDERS :: nat where
  "MAX_PROVIDERS = 50"

record ProviderMatchRawResult =
  provider_id :: string
  full_name :: string
  skill_trust_score :: real
  years_experience :: int
  distance_meters :: real

record MatchedProvider =
  providerId :: string
  fullName :: string
  trustScore :: number
  yearsExperience :: int
  distanceKm :: number

definition matchWhere ::
  "(point \<Rightarrow> point \<Rightarrow> real \<Rightarrow> bool) \<Rightarrow> string \<Rightarrow> real \<Rightarrow> real \<Rightarrow> real
     \<Rightarrow> user \<times> profile \<times> providerSkill \<Rightarrow> bool" where
  "matchWhere ST_DWithin serviceCategoryId lat lng radiusMeters row =
     (case row of (u, p, ps) \<Rightarrow>
        u_role u = ''PROVIDER''
        \<and> u_is_active u
        \<and> ps_service_category_id ps = serviceCategoryId
        \<and> ps_is_verified ps
        \<and> (case p_location p of
             None \<Rightarrow> False
           | Some loc \<Rightarrow> ST_DWithin loc (lng, lat) radiusMeters))"

definition matchJoin :: "db \<Rightarrow> (user \<times> profile \<times> providerSkill) list" where
  "matchJoin d =
     concat (map (\<lambda>u.
       concat (map (\<lambda>p.
         map (\<lambda>ps. (u, p, ps))
           (filter (\<lambda>ps. ps_provider_id ps = u_id u) (providerSkills d)))
         (filter (\<lambda>p. p_user_id p = u_id u) (profiles d))))
       (users d))"

definition matchSelect ::
  "(point \<Rightarrow> point \<Rightarrow> real) \<Rightarrow> real \<Rightarrow> real \<Rightarrow> user \<times> profile \<times> providerSkill
     \<Rightarrow> ProviderMatchRawResult" where
  "matchSelect ST_Distance lat lng row =
     (case row of (u, p, ps) \<Rightarrow>
        \<lparr>provider_id = u_id u, full_name = p_full_name p,
         skill_trust_score = ps_skill_trust_score ps,
         years_experience = ps_years_experience ps,
         distance_meters = ST_Distance (the (p_location p)) (lng, lat)\<rparr>)"

definition matchQuery ::
  "(point \<Rightarrow> point \<Rightarrow> real) \<Rightarrow> (point \<Rightarrow> point \<Rightarrow> real \<Rightarrow> bool) \<Rightarrow> db \<Rightarrow> string
     \<Rightarrow> real \<Rightarrow> real \<Rightarrow> real \<Rightarrow> nat \<Rightarrow> ProviderMatchRawResult list" where
  "matchQuery ST_Distance ST_DWithin d serviceCategoryId lat lng radiusMeters limit =
     take limit
       (sort_key (\<lambda>r. (- skill_trust_score r, distance_meters r))
          (map (matchSelect ST_Distance lat lng)
             (filter (matchWhere ST_DWithin serviceCategoryId lat lng radiusMeters)
                (matchJoin d))))"

definition toMatchedProvider :: "ProviderMatchRawResult \<Rightarrow> MatchedProvider" where
  "toMatchedProvider row =
     \<lparr>providerId = provider_id row, fullName = full_name row,
      trustScore = num_div (Math_round (num_mul (Finite (skill_trust_score row)) (lit 10))) (lit 10),
      yearsExperience = years_experience row,
      distanceKm = num_div
        (Math_round (num_mul (num_div (Finite (distance_meters row)) (lit 1000)) (lit 10)))
        (lit 10)\<rparr>"



text \<open>
  A database call may throw. \<open>fault\<close> says which call of a run does, if any.
\<close>

datatype fault = NoFault | UserLookupFails | CategoryLookupFails | BookingCreateFails | GeoQueryFails

definition findMatchingProviders ::
  "fault \<Rightarrow> (point \<Rightarrow> point \<Rightarrow> real) \<Rightarrow> (point \<Rightarrow> point \<Rightarrow> real \<Rightarrow> bool) \<Rightarrow> db \<Rightarrow> string
     \<Rightarrow> real \<Rightarrow> real \<Rightarrow> real \<Rightarrow> nat \<Rightarrow> thrown + MatchedProvider list" where
  "findMatchingProviders flt ST_Distance ST_DWithin d serviceCategoryId lat lng radiusMeters limit =
     (if flt = GeoQueryFails
      then Inl (GeospatialQueryError ''Failed to execute provider matching query'')
      else Inr (map toMatchedProvider
                  (matchQuery ST_Distance ST_DWithin d serviceCategoryId lat lng radiusMeters
                     limit)))"

record BookingLocation =
  bl_lat :: real
  bl_lng :: real
  bl_address :: "string option"

record CreateBookingMatchInput =
  cb_customerId :: string
  cb_careRecipientName :: string
  cb_serviceCategorySlug :: string
  cb_location :: BookingLocation
  cb_scheduledDate :: string
  cb_notes :: "string option"

record BookingResponse =
  r_id :: string
  r_status :: BookingStatus
  r_careRecipientName :: string
  r_location :: BookingLocation
  r_scheduledDate :: string
  r_notes :: "string option"
  r_createdAt :: string

record BookingMatchResult =
  booking :: BookingResponse
  matchedProviders :: "MatchedProvider list"
  totalMatches :: nat

text \<open>
  The fields of the response are evaluated in the order of the object literal; the two
  dates are written by \<^verbatim>\<open>toISOString\<close>, which throws on an Invalid Date.
\<close>

definition formatBookingResponse :: "(int \<Rightarrow> string) \<Rightarrow> booking \<Rightarrow> thrown + BookingResponse" where
  "formatBookingResponse isoText b =
     (case toISOString isoText (b_scheduledDate b) of
        Inl e \<Rightarrow> Inl e
      | Inr scheduledText \<Rightarrow>
          (case toISOString isoText (b_createdAt b) of
             Inl e \<Rightarrow> Inl e
           | Inr createdText \<Rightarrow>
               Inr \<lparr>r_id = b_id b, r_status = b_status b,
                    r_careRecipientName = b_careRecipientName b,
                    r_location = \<lparr>bl_lat = b_locationLat b, bl_lng = b_locationLng b,
                      bl_address = (if truthy (b_locationAddress b) then b_locationAddress b
                                    else None)\<rparr>,
                    r_scheduledDate = scheduledText,
                    r_notes = (if truthy (b_notes b) then b_notes b else None),
                    r_createdAt = createdText\<rparr>))"

text \<open>
  \<open>newId\<close> and \<open>now\<close> are the key and the creation time the database gives the new row;
  the scheduled date stored is \<^verbatim>\<open>new Date(scheduledDate)\<close>. The payment status of a new
  booking is the column's default. A run in which \<^verbatim>\<open>prisma.booking.create\<close> throws,
  whatever the reason, is a run with the fault \<open>BookingCreateFails\<close>. An error that is an
  \<^verbatim>\<open>AppError\<close> is rethrown as it is; any other, the \<open>RangeError\<close> of \<^verbatim>\<open>toISOString\<close>
  among them, is wrapped in a \<open>DatabaseError\<close>.
\<close>

definition createBookingAndFindMatches ::
  "fault \<Rightarrow> (point \<Rightarrow> point \<Rightarrow> real) \<Rightarrow> (point \<Rightarrow> point \<Rightarrow> real \<Rightarrow> bool)
     \<Rightarrow> (string \<Rightarrow> int option) \<Rightarrow> (int \<Rightarrow> string) \<Rightarrow> string \<Rightarrow> int
     \<Rightarrow> CreateBookingMatchInput \<Rightarrow> db \<Rightarrow> (thrown + BookingMatchResult) \<times> db" where
  "createBookingAndFindMatches flt ST_Distance ST_DWithin Date_parse isoText newId now input d =
     (if flt = UserLookupFails
      then (Inl (DatabaseError ''Failed to create booking and find matches''), d)
      else case find (\<lambda>u. u_id u = cb_customerId input) (users d) of
        None \<Rightarrow> (Inl (CustomerNotFoundError (cb_customerId input)), d)
      | Some customer \<Rightarrow>
          if \<not> u_is_active customer
          then (Inl (AppError ''Customer account is inactive''), d)
          else if flt = CategoryLookupFails
          then (Inl (DatabaseError ''Failed to create booking and find matches''), d)
          else case find (\<lambda>c. sc_slug c = cb_serviceCategorySlug input) (serviceCategories d) of
            None \<Rightarrow> (Inl (ServiceCategoryNotFoundError (cb_serviceCategorySlug input)), d)
          | Some serviceCategory \<Rightarrow>
              if \<not> sc_isActive serviceCategory
              then (Inl (AppError ''Service category is currently inactive''), d)
              else if flt = BookingCreateFails
              then (Inl (DatabaseError ''Failed to create booking and find matches''), d)
              else
                let created =
                      \<lparr>b_id = newId, b_customerId = cb_customerId input,
                       b_serviceCategoryId = sc_id serviceCategory,
                       b_status = PENDING, b_paymentStatus = Pay_PENDING,
                       b_careRecipientName = cb_careRecipientName input,
                       b_locationLat = bl_lat (cb_location input),
                       b_locationLng = bl_lng (cb_location input),
                       b_locationAddress = bl_address (cb_location input),
                       b_scheduledDate = newDate Date_parse (cb_scheduledDate input),
                       b_notes = (if truthy (cb_notes input) then cb_notes input else None),
                       b_cancellationReason = None, b_createdAt = TimeValue now\<rparr>;
                    d1 = d\<lparr>bookings := bookings d @ [created]\<rparr>
                in case findMatchingProviders flt ST_Distance ST_DWithin d1 (sc_id serviceCategory)
                          (bl_lat (cb_location input)) (bl_lng (cb_location input))
                          SEARCH_RADIUS_METERS MAX_PROVIDERS of
                     Inl e \<Rightarrow> (Inl e, d1)
                   | Inr matched \<Rightarrow>
                       (case formatBookingResponse isoText created of
                          Inl e \<Rightarrow>
                            (Inl (DatabaseError ''Failed to create booking and find matches''), d1)
                        | Inr response \<Rightarrow>
                            (Inr \<lparr>booking = response,
                                   matchedProviders = matched,
                                   totalMatches = length matched\<rparr>, d1)))"

section \<open>Trust score\<close>

text \<open>
  \<^verbatim>\<open>calculate_provider_trust_score\<close> is a PL/pgSQL function over four tables, of which
  the model keeps the columns the function reads. Its parameter is named \<^verbatim>\<open>provider_id\<close>,
  and so is a column of \<^verbatim>\<open>bookings\<close>: in the first query,
  \<^verbatim>\<open>WHERE provider_id = provider_id\<close>, each name can be read as the column or as the
  parameter. PL/pgSQL settles this by its setting \<^verbatim>\<open>plpgsql.variable_conflict\<close>: the
  default \<open>error\<close> raises ``column reference is ambiguous'' when the query is first run,
  \<open>use_variable\<close> compares the parameter with itself (true on every row),
  \<open>use_column\<close> compares the column with itself (true on every row whose
  \<^verbatim>\<open>provider_id\<close> is not null). The other three queries compare a column of another name
  with the parameter.

  The variables are \<^verbatim>\<open>DOUBLE PRECISION\<close>: every operation rounds to binary64 (\<open>fl\<close>).
  A count is a \<^verbatim>\<open>bigint\<close>, \<^verbatim>\<open>AVG\<close> of the ratings the exact mean, rounded when it is
  stored in the variable. With no row in \<^verbatim>\<open>profiles\<close> the last query leaves
  \<^verbatim>\<open>response_score\<close> null, and so is the result.
\<close>

datatype variable_conflict = conflict_error | use_variable | use_column

datatype sql_error = AmbiguousColumn string

record bookings_row =
  bk_provider_id :: "string option"
  bk_status :: string

record reviews_row =
  rv_target_id :: string
  rv_rating :: int

record verification_docs_row =
  vd_user_id :: string
  vd_status :: string

record profiles_row =
  pr_user_id :: string
  pr_response_time_min :: "int option"

record tables =
  t_bookings :: "bookings_row list"
  t_reviews :: "reviews_row list"
  t_verification_docs :: "verification_docs_row list"
  t_profiles :: "profiles_row list"

definition completion_rate :: "variable_conflict \<Rightarrow> tables \<Rightarrow> string \<Rightarrow> real" where
  "completion_rate mode T pid =
     (let rows = filter (\<lambda>b. mode = use_variable \<or> bk_provider_id b \<noteq> None) (t_bookings T);
          completed = length (filter (\<lambda>b. bk_status b = ''COMPLETED'') rows);
          ratio = (if length rows = 0 then 0
                   else fl (fl (real completed) / fl (real (length rows))))
      in fl (ratio * 100))"

definition avg_rating :: "tables \<Rightarrow> string \<Rightarrow> real" where
  "avg_rating T pid =
     (let ratings = map rv_rating (filter (\<lambda>r. rv_target_id r = pid) (t_reviews T));
          mean = (if ratings = [] then 0 else real_of_int (sum_list ratings) / real (length ratings))
      in fl (mean * 20))"

definition verification_score :: "tables \<Rightarrow> string \<Rightarrow> real" where
  "verification_score T pid =
     (let docs = filter (\<lambda>v. vd_user_id v = pid) (t_verification_docs T);
          verified = length (filter (\<lambda>v. vd_status v = ''VERIFIED'') docs)
      in if length docs = 0 then 0
         else fl (fl (fl (real verified) / fl (real (length docs))) * 100))"

definition response_score :: "tables \<Rightarrow> string \<Rightarrow> real option" where
  "response_score T pid =
     (case find (\<lambda>p. pr_user_id p = pid) (t_profiles T) of
        None \<Rightarrow> None
      | Some p \<Rightarrow>
          Some (case pr_response_time_min p of
                  None \<Rightarrow> 50
                | Some m \<Rightarrow> if m \<le> 15 then 100 else if m \<le> 30 then 80
                            else if m \<le> 60 then 60 else 40))"

definition calculate_provider_trust_score ::
  "variable_conflict \<Rightarrow> tables \<Rightarrow> string \<Rightarrow> sql_error + real option" where
  "calculate_provider_trust_score mode T pid =
     (if mode = conflict_error then Inl (AmbiguousColumn ''provider_id'')
      else case response_score T pid of
        None \<Rightarrow> Inr None
      | Some rs \<Rightarrow>
          Inr (Some (fl (fl (fl (fl (completion_rate mode T pid * fl (4 / 10))
                                 + fl (avg_rating T pid * fl (3 / 10)))
                             + fl (verification_score T pid * fl (2 / 10)))
                         + fl (rs * fl (1 / 10))))))"

text \<open>
  The score as the specification words it: the weighted sum of the four components of
  the provider itself, in exact arithmetic.
\<close>

definition specified_trust_score :: "tables \<Rightarrow> string \<Rightarrow> real" where
  "specified_trust_score T pid =
     (let own = filter (\<lambda>b. bk_provider_id b = Some pid) (t_bookings T);
          completionRate = (if own = [] then 0
             else real (length (filter (\<lambda>b. bk_status b = ''COMPLETED'') own))
                    / real (length own) * 100);
          ratings = map rv_rating (filter (\<lambda>r. rv_target_id r = pid) (t_reviews T));
          ratingComponent = (if ratings = [] then 0
             else real_of_int (sum_list ratings) / real (length ratings) * 20);
          docs = filter (\<lambda>v. vd_user_id v = pid) (t_verification_docs T);
          verificationComponent = (if docs = [] then 0
             else real (length (filter (\<lambda>v. vd_status v = ''VERIFIED'') docs))
                    / real (length docs) * 100);
          responsivenessComponent =
            (case find (\<lambda>p. pr_user_id p = pid) (t_profiles T) of
               None \<Rightarrow> 50
             | Some p \<Rightarrow>
                 (case pr_response_time_min p of
                    None \<Rightarrow> 50
                  | Some m \<Rightarrow> if m \<le> 15 then 100 else if m \<le> 30 then 80
                              else if m \<le> 60 then 60 else 40))
      in 4 / 10 * completionRate + 3 / 10 * ratingComponent
           + 2 / 10 * verificationComponent + 1 / 10 * responsivenessComponent)"

section \<open>Sample data\<close>

definition booking1 :: booking where
  "booking1 = \<lparr>b_id = ''b1'', b_customerId = ''c1'', b_serviceCategoryId = ''cat1'',
     b_status = PENDING, b_paymentStatus = Pay_PENDING, b_careRecipientName = ''Amma'',
     b_locationLat = 7, b_locationLng = 80, b_locationAddress = Some ''Asiri Hospital, Colombo'',
     b_scheduledDate = TimeValue 1735722000000, b_notes = None,
     b_cancellationReason = None, b_createdAt = TimeValue 1735549200000\<rparr>"

definition booking2 :: booking where
  "booking2 = booking1\<lparr>b_id := ''b2'', b_status := IN_PROGRESS,
     b_paymentStatus := Pay_HELD_IN_ESCROW\<rparr>"

definition db1 :: db where
  "db1 = \<lparr>users = [], profiles = [], providerSkills = [], serviceCategories = [],
     bookings = [booking1, booking2], auditLogs = []\<rparr>"

definition escalation1 :: "string \<Rightarrow> EmergencyEscalationInput" where
  "escalation1 k = \<lparr>shiftId = k, triggeredBy = PROVIDER, triggeredByUserId = ''p1'',
     reason = None, location = None\<rparr>"

definition config1 :: config where
  "config1 = \<lparr>checkoutUrl = ''https://sandbox.payhere.lk/pay/checkout'',
     apiUrl = ''https://sandbox.payhere.lk/pay/v1'', merchantId = ''M1'',
     merchantSecret = ''secret'', appId = ''app'', appSecret = ''appsecret''\<rparr>"

definition notification1 :: PayHereNotification where
  "notification1 = \<lparr>merchant_id = ''M1'', order_id = ''ORD-123'', payment_id = ''320025071'',
     payhere_amount = ''1000.00'', payhere_currency = ''LKR'', status_code = ''2'',
     status_message = ''Successfully completed the payment.'', n_method = ''VISA'',
     card_holder_name = None, card_no = None, card_expiry = None,
     md5sig = ''072DE231BADBA324F85A255C88E9BCEE'', custom_1 = Some ''b1'', custom_2 = None\<rparr>"

definition notification_lower :: PayHereNotification where
  "notification_lower = notification1\<lparr>md5sig := ''072de231badba324f85a255c88e9bcee''\<rparr>"

definition notification_forged :: PayHereNotification where
  "notification_forged = notification1\<lparr>md5sig := ''00000000000000000000000000000000''\<rparr>"

definition parseFloat1 :: "string \<Rightarrow> number" where
  "parseFloat1 s = (if s = ''1000.00'' then Finite 1000 else NaN)"

definition db1_paid :: db where
  "db1_paid = snd (handlePaymentNotification parseFloat1 config1 notification1 db1)"

definition db1_released :: db where
  "db1_released = snd (releaseEscrowPayment ''2025-01-01T10:00:00.000Z'' ''b1'' db1_paid)"

text \<open>
  A distance for the examples: 100 km for each degree, along both axes.
\<close>

definition gridDistance :: "point \<Rightarrow> point \<Rightarrow> real" where
  "gridDistance a b = 100000 * (\<bar>fst a - fst b\<bar> + \<bar>snd a - snd b\<bar>)"

text \<open>
  A radius test for the examples, the boundary included, and a reported distance that is
  the distance rounded to a hundred-millionth of a meter.
\<close>

definition gridWithin :: "point \<Rightarrow> point \<Rightarrow> real \<Rightarrow> bool" where
  "gridWithin a b r = (gridDistance a b \<le> r)"


definition db2 :: db where
  "db2 = \<lparr>users =
       [\<lparr>u_id = ''c1'', u_role = ''CUSTOMER'', u_is_active = True\<rparr>,
        \<lparr>u_id = ''pA'', u_role = ''PROVIDER'', u_is_active = True\<rparr>,
        \<lparr>u_id = ''pB'', u_role = ''PROVIDER'', u_is_active = True\<rparr>,
        \<lparr>u_id = ''pC'', u_role = ''PROVIDER'', u_is_active = True\<rparr>,
        \<lparr>u_id = ''pD'', u_role = ''PROVIDER'', u_is_active = True\<rparr>,
        \<lparr>u_id = ''pE'', u_role = ''PROVIDER'', u_is_active = False\<rparr>],
     profiles =
       [\<lparr>p_user_id = ''pA'', p_full_name = ''A'', p_location = Some (8009 / 100, 7),
          p_isAvailable = True, p_emergencyName = None, p_emergencyPhone = None\<rparr>,
        \<lparr>p_user_id = ''pB'', p_full_name = ''B'', p_location = Some (8001 / 100, 7),
          p_isAvailable = True, p_emergencyName = None, p_emergencyPhone = None\<rparr>,
        \<lparr>p_user_id = ''pC'', p_full_name = ''C'', p_location = Some (801 / 10, 7),
          p_isAvailable = True, p_emergencyName = None, p_emergencyPhone = None\<rparr>,
        \<lparr>p_user_id = ''pD'', p_full_name = ''D'', p_location = Some (8010001 / 100000, 7),
          p_isAvailable = True, p_emergencyName = None, p_emergencyPhone = None\<rparr>,
        \<lparr>p_user_id = ''pE'', p_full_name = ''E'', p_location = Some (80001 / 1000, 7),
          p_isAvailable = True, p_emergencyName = None, p_emergencyPhone = None\<rparr>],
     providerSkills =
       [\<lparr>ps_provider_id = ''pA'', ps_service_category_id = ''cat1'', ps_is_verified = True,
          ps_skill_trust_score = 2561 / 32, ps_years_experience = 5\<rparr>,
        \<lparr>ps_provider_id = ''pB'', ps_service_category_id = ''cat1'', ps_is_verified = True,
          ps_skill_trust_score = 5121 / 64, ps_years_experience = 3\<rparr>,
        \<lparr>ps_provider_id = ''pC'', ps_service_category_id = ''cat1'', ps_is_verified = True,
          ps_skill_trust_score = 70, ps_years_experience = 2\<rparr>,
        \<lparr>ps_provider_id = ''pD'', ps_service_category_id = ''cat1'', ps_is_verified = True,
          ps_skill_trust_score = 90, ps_years_experience = 9\<rparr>,
        \<lparr>ps_provider_id = ''pE'', ps_service_category_id = ''cat1'', ps_is_verified = True,
          ps_skill_trust_score = 95, ps_years_experience = 7\<rparr>],
     serviceCategories =
       [\<lparr>sc_id = ''cat1'', sc_name = ''Hospital Companion'', sc_slug = ''hospital-companion'',
          sc_isActive = True\<rparr>],
     bookings = [], auditLogs = []\<rparr>"

definition matchInput1 :: CreateBookingMatchInput where
  "matchInput1 = \<lparr>cb_customerId = ''c1'', cb_careRecipientName = ''Amma'',
     cb_serviceCategorySlug = ''hospital-companion'',
     cb_location = \<lparr>bl_lat = 7, bl_lng = 80, bl_address = Some ''Asiri Hospital''\<rparr>,
     cb_scheduledDate = ''2025-01-01T09:00:00Z'', cb_notes = None\<rparr>"



text \<open>
  The two texts and time values of the examples, for \<^verbatim>\<open>new Date\<close> and \<^verbatim>\<open>toISOString\<close>.
\<close>

definition Date_parse1 :: "string \<Rightarrow> int option" where
  "Date_parse1 text =
     (if text = ''2025-01-01T09:00:00Z'' \<or> text = ''2025-01-01T09:00:00.000Z''
      then Some 1735722000000 else None)"

definition isoText1 :: "int \<Rightarrow> string" where
  "isoText1 t =
     (if t = 1735722000000 then ''2025-01-01T09:00:00.000Z''
      else if t = 1735549200000 then ''2024-12-30T09:00:00.000Z''
      else [])"

definition matched1 :: "MatchedProvider list" where
  "matched1 =
     [\<lparr>providerId = ''pA'', fullName = ''A'', trustScore = Finite 80, yearsExperience = 5,
        distanceKm = Finite 9\<rparr>,
      \<lparr>providerId = ''pB'', fullName = ''B'', trustScore = Finite 80, yearsExperience = 3,
        distanceKm = Finite 1\<rparr>,
      \<lparr>providerId = ''pC'', fullName = ''C'', trustScore = Finite 70, yearsExperience = 2,
        distanceKm = Finite 10\<rparr>]"

definition tables1 :: tables where
  "tables1 = \<lparr>t_bookings = [\<lparr>bk_provider_id = Some ''pB'', bk_status = ''COMPLETED''\<rparr>],
     t_reviews = [], t_verification_docs = [],
     t_profiles = [\<lparr>pr_user_id = ''pA'', pr_response_time_min = None\<rparr>]\<rparr>"

definition tables2 :: tables where
  "tables2 = \<lparr>t_bookings = [\<lparr>bk_provider_id = Some ''pA'', bk_status = ''COMPLETED''\<rparr>],
     t_reviews = [\<lparr>rv_target_id = ''pA'', rv_rating = 10\<rparr>],
     t_verification_docs = [\<lparr>vd_user_id = ''pA'', vd_status = ''VERIFIED''\<rparr>],
     t_profiles = [\<lparr>pr_user_id = ''pA'', pr_response_time_min = Some 10\<rparr>]\<rparr>"

definition tables3 :: tables where
  "tables3 = tables2\<lparr>t_reviews := [\<lparr>rv_target_id = ''pA'', rv_rating = 5\<rparr>]\<rparr>"

section \<open>Emergency escalation: preconditions\<close>

lemma escalateEmergency_Inr_D:
  assumes "escalateEmergency sendSMS input d = (Inr res, d')"
  shows "\<exists>shift. findBooking d (shiftId input) = Some shift \<and> escalatable (b_status shift)"
proof (cases "findBooking d (shiftId input)")
  case None
  with assms show ?thesis by (simp add: escalateEmergency_def)
next
  case (Some shift)
  show ?thesis
  proof (cases "escalatable (b_status shift)")
    case True
    with Some show ?thesis by simp
  next
    case False
    with Some assms show ?thesis by (simp add: escalateEmergency_def)
  qed
qed

lemma escalateEmergency_succeeds:
  assumes "findBooking d (shiftId input) = Some shift"
    and "escalatable (b_status shift)"
    and "b_locationAddress shift = Some address"
  shows "\<exists>res d'. escalateEmergency sendSMS input d = (Inr res, d')"
proof -
  obtain d1 where u: "\<And>f. updateBooking (shiftId input) f d
      = Inr (d\<lparr>bookings := map (\<lambda>b. if b_id b = shiftId input then f b else b) (bookings d)\<rparr>)"
    using assms(1) by (simp add: updateBooking_def)
  obtain n where n: "determineEmergencyNumber (b_locationAddress shift) = Inr n"
    using assms(3) by (cases "hospitalMatch hospitalEmergencyNumbers (toUpperCase address)")
      (simp_all add: determineEmergencyNumber_def)
  show ?thesis
    using assms(1,2) by (simp add: escalateEmergency_def u n Let_def)
qed

lemma escalatable_cases:
  "escalatable s \<longleftrightarrow> s \<in> {MATCHED, CONFIRMED, IN_PROGRESS}"
  by (cases s) (simp_all add: escalatable_def)

lemma not_escalatable_cases:
  "s \<in> {PENDING, COMPLETED, CANCELLED, DISPUTED} \<Longrightarrow> \<not> escalatable s"
  by (auto simp: escalatable_def)

text \<open>
  C4. \<open>escalateEmergency\<close> returns a result only when the booking exists and its status
  is \<open>MATCHED\<close>, \<open>CONFIRMED\<close> or \<open>IN_PROGRESS\<close>. A missing booking throws the error
  ``Shift not found'', a booking in \<open>PENDING\<close>, \<open>COMPLETED\<close>, \<open>CANCELLED\<close> or \<open>DISPUTED\<close>
  throws the error ``Cannot escalate emergency for shift in status'', the two errors are
  never equal, and in both cases the database is returned as it was: the booking is not
  moved to \<open>DISPUTED\<close> and no audit row is written.
\<close>

theorem escalateEmergency_preconditions:
  "(\<forall>res d'. escalateEmergency sendSMS input d = (Inr res, d') \<longrightarrow>
      (\<exists>shift. findBooking d (shiftId input) = Some shift
         \<and> b_status shift \<in> {MATCHED, CONFIRMED, IN_PROGRESS}))
   \<and> (findBooking d (shiftId input) = None \<longrightarrow>
        escalateEmergency sendSMS input d
          = (Inl (Error (''Shift not found: '' @ shiftId input)), d))
   \<and> (\<forall>shift. findBooking d (shiftId input) = Some shift
          \<and> b_status shift \<in> {PENDING, COMPLETED, CANCELLED, DISPUTED} \<longrightarrow>
        escalateEmergency sendSMS input d
          = (Inl (Error (''Cannot escalate emergency for shift in status: ''
                @ BookingStatus_text (b_status shift))), d))
   \<and> (\<forall>k s. Error (''Shift not found: '' @ k)
          \<noteq> Error (''Cannot escalate emergency for shift in status: '' @ BookingStatus_text s))"
proof (intro conjI allI impI)
  fix res d'
  assume "escalateEmergency sendSMS input d = (Inr res, d')"
  from escalateEmergency_Inr_D [OF this]
  show "\<exists>shift. findBooking d (shiftId input) = Some shift
          \<and> b_status shift \<in> {MATCHED, CONFIRMED, IN_PROGRESS}"
    by (simp add: escalatable_cases)
next
  assume "findBooking d (shiftId input) = None"
  then show "escalateEmergency sendSMS input d
          = (Inl (Error (''Shift not found: '' @ shiftId input)), d)"
    by (simp add: escalateEmergency_def)
next
  fix shift
  assume a: "findBooking d (shiftId input) = Some shift
          \<and> b_status shift \<in> {PENDING, COMPLETED, CANCELLED, DISPUTED}"
  then have "\<not> escalatable (b_status shift)"
    by (simp add: not_escalatable_cases)
  with a show "escalateEmergency sendSMS input d
          = (Inl (Error (''Cannot escalate emergency for shift in status: ''
                @ BookingStatus_text (b_status shift))), d)"
    by (simp add: escalateEmergency_def)
next
  fix k s
  show "Error (''Shift not found: '' @ k)
          \<noteq> Error (''Cannot escalate emergency for shift in status: '' @ BookingStatus_text s)"
    by simp
qed

lemma findBooking_db1_b1: "findBooking db1 ''b1'' = Some booking1"
  by (simp add: findBooking_def db1_def booking1_def)

lemma findBooking_db1_b2: "findBooking db1 ''b2'' = Some booking2"
  by (simp add: findBooking_def db1_def booking1_def booking2_def)

lemma findBooking_db1_none: "findBooking db1 ''b9'' = None"
  by (simp add: findBooking_def db1_def booking1_def booking2_def)

theorem escalateEmergency_preconditions_witness:
  "findBooking db1 ''b9'' = None
   \<and> escalateEmergency (\<lambda>m. True) (escalation1 ''b9'') db1
       = (Inl (Error ''Shift not found: b9''), db1)
   \<and> findBooking db1 ''b1'' = Some booking1
   \<and> b_status booking1 \<in> {PENDING, COMPLETED, CANCELLED, DISPUTED}
   \<and> escalateEmergency (\<lambda>m. True) (escalation1 ''b1'') db1
       = (Inl (Error ''Cannot escalate emergency for shift in status: PENDING''), db1)
   \<and> (\<exists>res d'. escalateEmergency (\<lambda>m. True) (escalation1 ''b2'') db1 = (Inr res, d')
        \<and> findBooking db1 ''b2'' = Some booking2
        \<and> b_status booking2 \<in> {MATCHED, CONFIRMED, IN_PROGRESS})"
proof -
  have h1: "findBooking db1 (shiftId (escalation1 ''b9'')) = None"
    by (simp add: escalation1_def findBooking_db1_none)
  have h2: "findBooking db1 (shiftId (escalation1 ''b1'')) = Some booking1
      \<and> b_status booking1 \<in> {PENDING, COMPLETED, CANCELLED, DISPUTED}"
    by (simp add: escalation1_def findBooking_db1_b1) (simp add: booking1_def)
  have h3: "\<exists>res d'. escalateEmergency (\<lambda>m. True) (escalation1 ''b2'') db1 = (Inr res, d')"
    by (rule escalateEmergency_succeeds [where shift = booking2])
       (simp_all add: escalation1_def findBooking_db1_b2 escalatable_def booking2_def booking1_def)
  note t1 = escalateEmergency_preconditions [of "\<lambda>m. True" "escalation1 ''b9''" db1]
  note t2 = escalateEmergency_preconditions [of "\<lambda>m. True" "escalation1 ''b1''" db1]
  note t3 = escalateEmergency_preconditions [of "\<lambda>m. True" "escalation1 ''b2''" db1]
  from t1 h1 have c1: "escalateEmergency (\<lambda>m. True) (escalation1 ''b9'') db1
       = (Inl (Error ''Shift not found: b9''), db1)"
    by (simp add: escalation1_def)
  from t2 h2 have c2: "escalateEmergency (\<lambda>m. True) (escalation1 ''b1'') db1
       = (Inl (Error ''Cannot escalate emergency for shift in status: PENDING''), db1)"
    by (simp add: escalation1_def booking1_def)
  from h3 obtain res d' where
    r: "escalateEmergency (\<lambda>m. True) (escalation1 ''b2'') db1 = (Inr res, d')"
    by blast
  with t3 have "\<exists>shift. findBooking db1 (shiftId (escalation1 ''b2'')) = Some shift
         \<and> b_status shift \<in> {MATCHED, CONFIRMED, IN_PROGRESS}"
    by blast
  then have c3: "findBooking db1 ''b2'' = Some booking2
        \<and> b_status booking2 \<in> {MATCHED, CONFIRMED, IN_PROGRESS}"
    by (simp add: escalation1_def findBooking_db1_b2)
  from h1 h2 c1 c2 c3 r show ?thesis
    by (simp add: escalation1_def)
qed

section \<open>Payment notifications: signatures and redelivery\<close>

lemma md5_secret: "md5 ''secret'' = ''5ebe2294ecd0e0f08eab7690d2a6ee69''"
  by code_simp

lemma md5_hashString1:
  "md5 ''M1ORD-1231000.00LKR25EBE2294ECD0E0F08EAB7690D2A6EE69'' = ''072de231badba324f85a255c88e9bcee''"
  by code_simp

lemma upper1: "toUpperCase ''5ebe2294ecd0e0f08eab7690d2a6ee69'' = ''5EBE2294ECD0E0F08EAB7690D2A6EE69''"
  by (simp add: toUpperCase_def upper_table_def)

lemma upper2: "toUpperCase ''072de231badba324f85a255c88e9bcee'' = ''072DE231BADBA324F85A255C88E9BCEE''"
  by (simp add: toUpperCase_def upper_table_def)

lemma upper3: "toUpperCase ''072DE231BADBA324F85A255C88E9BCEE'' = ''072DE231BADBA324F85A255C88E9BCEE''"
  by (simp add: toUpperCase_def upper_table_def)

lemma expectedSig1:
  "generateNotificationHash ''M1'' ''ORD-123'' ''1000.00'' ''LKR'' ''2'' ''secret''
     = ''072DE231BADBA324F85A255C88E9BCEE''"
  by (simp add: generateNotificationHash_def md5_secret upper1 md5_hashString1 upper2)

lemma find_map_option:
  "find P (map f xs) = map_option f (find (P \<circ> f) xs)"
  by (induction xs) simp_all

lemma updateBooking_Inr_iff:
  "updateBooking k f d = Inr d1 \<longleftrightarrow>
     findBooking d k \<noteq> None
     \<and> d1 = d\<lparr>bookings := map (\<lambda>b. if b_id b = k then f b else b) (bookings d)\<rparr>"
  by (cases "findBooking d k") (auto simp: updateBooking_def)

lemma updateBooking_Inl_iff:
  "updateBooking k f d = Inl e \<longleftrightarrow> findBooking d k = None \<and> e = RecordNotFound"
  by (cases "findBooking d k") (auto simp: updateBooking_def)

lemma find_setPay:
  "find (\<lambda>b. b_id b = k') (map (\<lambda>b. if b_id b = k then b\<lparr>b_paymentStatus := x\<rparr> else b) xs)
     = map_option (\<lambda>b. if b_id b = k then b\<lparr>b_paymentStatus := x\<rparr> else b)
         (find (\<lambda>b. b_id b = k') xs)"
  by (induction xs) simp_all

lemma findBooking_setPay:
  "findBooking (d\<lparr>bookings := map (\<lambda>b. if b_id b = k then b\<lparr>b_paymentStatus := x\<rparr> else b) (bookings d)\<rparr>) k'
     = map_option (\<lambda>b. if b_id b = k then b\<lparr>b_paymentStatus := x\<rparr> else b) (findBooking d k')"
  by (simp add: findBooking_def find_setPay)

lemma findBooking_createAuditLog [simp]:
  "findBooking (createAuditLog a d) k = findBooking d k"
  by (simp add: findBooking_def createAuditLog_def)

lemma setPay_twice:
  "(\<lambda>b. if b_id b = k then b\<lparr>b_paymentStatus := x\<rparr> else b)
     \<circ> (\<lambda>b. if b_id b = k then b\<lparr>b_paymentStatus := y\<rparr> else b)
   = (\<lambda>b. if b_id b = k then b\<lparr>b_paymentStatus := x\<rparr> else b)"
  by (rule ext) simp

text \<open>What a delivery that returns has done.\<close>

lemma handlePaymentNotification_Inr_iff:
  assumes st: "mapToPrismaPaymentStatus (v_status (verifyPaymentNotification pf cfg n)) = st"
  shows "handlePaymentNotification pf cfg n d = (Inr u, d') \<longleftrightarrow>
     v_valid (verifyPaymentNotification pf cfg n) \<and> truthy (custom_1 n)
     \<and> findBooking d (the (custom_1 n)) \<noteq> None
     \<and> d' = createAuditLog (paymentAudit (the (custom_1 n)) (verifyPaymentNotification pf cfg n))
          (d\<lparr>bookings := map (\<lambda>b. if b_id b = the (custom_1 n)
                 then b\<lparr>b_paymentStatus := st\<rparr> else b) (bookings d)\<rparr>)"
proof (cases "findBooking d (the (custom_1 n))")
  case None
  then show ?thesis
    unfolding handlePaymentNotification_def Let_def st
    by (simp add: updateBooking_def)
next
  case (Some b)
  show ?thesis
  proof (cases "v_status (verifyPaymentNotification pf cfg n) = VS_SUCCESS")
    case True
    with st have "st = Pay_HELD_IN_ESCROW" by simp
    with Some True show ?thesis
      unfolding handlePaymentNotification_def Let_def st
      by (auto simp: updateBooking_def findBooking_setPay setPay_twice)
  next
    case False
    with Some show ?thesis
      unfolding handlePaymentNotification_def Let_def st
      by (auto simp: updateBooking_def)
  qed
qed

text \<open>
  C1 (as amended). A payment-confirmation notification delivered a second time is not
  recognised as a duplicate. When the first delivery of a valid notification with status
  \<open>SUCCESS\<close> has returned, the same notification delivered again returns too: it writes
  the payment status \<open>HELD_IN_ESCROW\<close> of the booking named in \<open>custom_1\<close> once more and
  appends one more audit row, so the database after the second delivery differs from the
  one after the first, in the audit log and in nothing else. After either delivery the
  booking exists and its payment status is \<open>HELD_IN_ESCROW\<close>, whatever it was before.
\<close>

theorem handlePaymentNotification_redelivery:
  assumes "handlePaymentNotification pf cfg n d = (Inr (), d1)"
    and "v_status (verifyPaymentNotification pf cfg n) = VS_SUCCESS"
  shows "handlePaymentNotification pf cfg n d1
           = (Inr (), d1\<lparr>auditLogs := auditLogs d1
                @ [paymentAudit (the (custom_1 n)) (verifyPaymentNotification pf cfg n)]\<rparr>)
         \<and> snd (handlePaymentNotification pf cfg n d1) \<noteq> d1
         \<and> (\<exists>b \<in> set (bookings d1). b_id b = the (custom_1 n))
         \<and> (\<forall>b \<in> set (bookings d1). b_id b = the (custom_1 n)
               \<longrightarrow> b_paymentStatus b = Pay_HELD_IN_ESCROW)"
proof -
  let ?k = "the (custom_1 n)"
  let ?v = "verifyPaymentNotification pf cfg n"
  let ?g = "\<lambda>b. if b_id b = ?k then b\<lparr>b_paymentStatus := Pay_HELD_IN_ESCROW\<rparr> else b"
  have st: "mapToPrismaPaymentStatus (v_status ?v) = Pay_HELD_IN_ESCROW"
    by (simp add: assms(2))
  from assms(1) have ok: "v_valid ?v" "truthy (custom_1 n)" "findBooking d ?k \<noteq> None"
    and d1: "d1 = createAuditLog (paymentAudit ?k ?v) (d\<lparr>bookings := map ?g (bookings d)\<rparr>)"
    by (simp_all add: handlePaymentNotification_Inr_iff [OF st])
  have bs: "bookings d1 = map ?g (bookings d)"
    by (simp add: d1 createAuditLog_def)
  have again: "map ?g (bookings d1) = bookings d1"
    by (simp add: bs setPay_twice)
  have found: "findBooking d1 ?k \<noteq> None"
    using ok(3) by (simp add: d1 findBooking_setPay)
  have step: "handlePaymentNotification pf cfg n d1
      = (Inr (), createAuditLog (paymentAudit ?k ?v) (d1\<lparr>bookings := map ?g (bookings d1)\<rparr>))"
    using ok found by (simp add: handlePaymentNotification_Inr_iff [OF st])
  have same: "d1\<lparr>bookings := map ?g (bookings d1)\<rparr> = d1"
    by (simp add: again)
  have first: "handlePaymentNotification pf cfg n d1
           = (Inr (), d1\<lparr>auditLogs := auditLogs d1 @ [paymentAudit ?k ?v]\<rparr>)"
    by (simp add: step same createAuditLog_def)
  have differs: "snd (handlePaymentNotification pf cfg n d1) \<noteq> d1"
  proof
    assume "snd (handlePaymentNotification pf cfg n d1) = d1"
    then have "auditLogs (d1\<lparr>auditLogs := auditLogs d1 @ [paymentAudit ?k ?v]\<rparr>) = auditLogs d1"
      by (simp add: first)
    then show False by simp
  qed
  from found obtain b where b: "find (\<lambda>b. b_id b = ?k) (bookings d1) = Some b"
    by (auto simp: findBooking_def)
  then have ex: "\<exists>b \<in> set (bookings d1). b_id b = ?k"
    by (auto simp: find_Some_iff)
  have held: "\<forall>b \<in> set (bookings d1). b_id b = ?k \<longrightarrow> b_paymentStatus b = Pay_HELD_IN_ESCROW"
    by (auto simp: bs)
  from first differs ex held show ?thesis by blast
qed

lemma capitals_not_small:
  "u \<in> set ''ABCDEFGHIJKLMNOPQRSTUVWXYZ'' \<Longrightarrow> u \<notin> set ''abcdefghijklmnopqrstuvwxyz''"
  by auto

lemma toUpperCase_char_idem:
  assumes "map_of upper_table c = Some u"
  shows "map_of upper_table u = None"
proof -
  from assms have "(c, u) \<in> set upper_table"
    by (rule map_of_SomeD)
  then have "u \<in> set ''ABCDEFGHIJKLMNOPQRSTUVWXYZ''"
    unfolding upper_table_def by (rule set_zip_rightD)
  then have "u \<notin> set ''abcdefghijklmnopqrstuvwxyz''"
    by (rule capitals_not_small)
  then show ?thesis
    unfolding upper_table_def by (simp add: map_of_zip_is_None)
qed

lemma toUpperCase_idem: "toUpperCase (toUpperCase s) = toUpperCase s"
  by (induction s) (auto simp: toUpperCase_def toUpperCase_char_idem split: option.splits)

lemma generateNotificationHash_upper:
  "toUpperCase (generateNotificationHash m ord a c sc sec) = generateNotificationHash m ord a c sc sec"
  by (simp add: generateNotificationHash_def Let_def toUpperCase_idem)

lemma verify_valid_iff:
  "v_valid (verifyPaymentNotification pf cfg n) \<longleftrightarrow>
     toUpperCase (md5sig n) = generateNotificationHash (merchant_id n) (order_id n)
        (payhere_amount n) (payhere_currency n) (status_code n) (merchantSecret cfg)"
  by (simp add: verifyPaymentNotification_def Let_def generateNotificationHash_upper)

lemma verify_invalid_status:
  "\<not> v_valid (verifyPaymentNotification pf cfg n)
     \<Longrightarrow> v_status (verifyPaymentNotification pf cfg n) = VS_FAILED"
  by (simp add: verifyPaymentNotification_def Let_def split: if_splits)

lemma verify_valid_status:
  "v_valid (verifyPaymentNotification pf cfg n)
     \<Longrightarrow> v_status (verifyPaymentNotification pf cfg n) = mapStatusCode (status_code n)"
  by (simp add: verifyPaymentNotification_def Let_def split: if_splits)

lemma handle_invalid:
  "\<not> v_valid (verifyPaymentNotification pf cfg n)
     \<Longrightarrow> handlePaymentNotification pf cfg n d
           = (Inl (Error ''Invalid payment notification signature''), d)"
  by (simp add: handlePaymentNotification_def Let_def)

text \<open>
  C9 (as amended). Verification recomputes the signature from the notification's fields
  and the merchant secret, an upper-case hexadecimal digest, and accepts the notification
  exactly when the supplied signature equals it after upper-casing: the comparison
  ignores the case of the letters. A notification that fails it is marked invalid with
  status \<open>FAILED\<close>, and \<open>handlePaymentNotification\<close> then throws ``Invalid payment
  notification signature'' and returns the database as it was, so no payment status is
  updated.
\<close>

theorem verifyPaymentNotification_signature:
  "(v_valid (verifyPaymentNotification pf cfg n) \<longleftrightarrow>
      toUpperCase (md5sig n) = generateNotificationHash (merchant_id n) (order_id n)
        (payhere_amount n) (payhere_currency n) (status_code n) (merchantSecret cfg))
   \<and> (\<not> v_valid (verifyPaymentNotification pf cfg n) \<longrightarrow>
         v_status (verifyPaymentNotification pf cfg n) = VS_FAILED
         \<and> handlePaymentNotification pf cfg n d
             = (Inl (Error ''Invalid payment notification signature''), d))"
  using verify_valid_iff [of pf cfg n] verify_invalid_status [of pf cfg n]
    handle_invalid [of pf cfg n d]
  by blast

lemma valid1: "v_valid (verifyPaymentNotification parseFloat1 config1 notification1)"
  by (simp add: verify_valid_iff notification1_def config1_def expectedSig1 upper3)

lemma valid_lower: "v_valid (verifyPaymentNotification parseFloat1 config1 notification_lower)"
  by (simp add: verify_valid_iff notification_lower_def notification1_def config1_def
      expectedSig1 upper2)

lemma upper0: "toUpperCase ''00000000000000000000000000000000'' = ''00000000000000000000000000000000''"
  by (simp add: toUpperCase_def upper_table_def)

lemma invalid_forged:
  "\<not> v_valid (verifyPaymentNotification parseFloat1 config1 notification_forged)"
  by (simp add: verify_valid_iff notification_forged_def notification1_def config1_def
      expectedSig1 upper0)

lemma status1: "v_status (verifyPaymentNotification parseFloat1 config1 notification1) = VS_SUCCESS"
  by (simp add: verify_valid_status [OF valid1]) (simp add: notification1_def mapStatusCode_def statusMap_def)

lemma status_lower:
  "v_status (verifyPaymentNotification parseFloat1 config1 notification_lower) = VS_SUCCESS"
  by (simp add: verify_valid_status [OF valid_lower])
     (simp add: notification_lower_def notification1_def mapStatusCode_def statusMap_def)

theorem verifyPaymentNotification_signature_witness:
  "\<not> v_valid (verifyPaymentNotification parseFloat1 config1 notification_forged)
   \<and> v_status (verifyPaymentNotification parseFloat1 config1 notification_forged) = VS_FAILED
   \<and> handlePaymentNotification parseFloat1 config1 notification_forged db1
       = (Inl (Error ''Invalid payment notification signature''), db1)"
  using verifyPaymentNotification_signature [of parseFloat1 config1 notification_forged db1]
    invalid_forged
  by blast

lemma handle_lower:
  "handlePaymentNotification parseFloat1 config1 notification_lower db1
     = (Inr (), createAuditLog
          (paymentAudit ''b1'' (verifyPaymentNotification parseFloat1 config1 notification_lower))
          (db1\<lparr>bookings := map (\<lambda>b. if b_id b = ''b1''
                 then b\<lparr>b_paymentStatus := Pay_HELD_IN_ESCROW\<rparr> else b) (bookings db1)\<rparr>))"
proof -
  have st: "mapToPrismaPaymentStatus
      (v_status (verifyPaymentNotification parseFloat1 config1 notification_lower))
        = Pay_HELD_IN_ESCROW"
    by (simp add: status_lower)
  have c: "custom_1 notification_lower = Some ''b1''"
    by (simp add: notification_lower_def notification1_def)
  show ?thesis
    using handlePaymentNotification_Inr_iff [OF st, of db1 "()"] valid_lower
    by (simp add: c findBooking_db1_b1)
qed

text \<open>
  The claim as stated asks for a byte-for-byte comparison. The lower-case spelling of the
  digest differs from the recomputed signature in its letters, yet the notification is
  accepted and the booking's payment status is updated.
\<close>

theorem signature_bytewise_counterexample:
  "md5sig notification_lower
     \<noteq> generateNotificationHash (merchant_id notification_lower) (order_id notification_lower)
         (payhere_amount notification_lower) (payhere_currency notification_lower)
         (status_code notification_lower) (merchantSecret config1)
   \<and> v_valid (verifyPaymentNotification parseFloat1 config1 notification_lower)
   \<and> fst (handlePaymentNotification parseFloat1 config1 notification_lower db1) = Inr ()
   \<and> map b_paymentStatus (bookings db1) = [Pay_PENDING, Pay_HELD_IN_ESCROW]
   \<and> map b_paymentStatus
        (bookings (snd (handlePaymentNotification parseFloat1 config1 notification_lower db1)))
       = [Pay_HELD_IN_ESCROW, Pay_HELD_IN_ESCROW]"
proof -
  have a: "md5sig notification_lower
     \<noteq> generateNotificationHash (merchant_id notification_lower) (order_id notification_lower)
         (payhere_amount notification_lower) (payhere_currency notification_lower)
         (status_code notification_lower) (merchantSecret config1)"
    by (simp add: notification_lower_def notification1_def config1_def expectedSig1)
  have b: "map b_paymentStatus (bookings db1) = [Pay_PENDING, Pay_HELD_IN_ESCROW]"
    by (simp add: db1_def booking1_def booking2_def)
  have c: "map b_paymentStatus
        (bookings (snd (handlePaymentNotification parseFloat1 config1 notification_lower db1)))
       = [Pay_HELD_IN_ESCROW, Pay_HELD_IN_ESCROW]"
    by (simp add: handle_lower createAuditLog_def) (simp add: db1_def booking1_def booking2_def)
  from a b c valid_lower show ?thesis
    by (simp add: handle_lower)
qed


lemma custom_1_notification1: "custom_1 notification1 = Some ''b1''"
  by (simp add: notification1_def)

lemma handle_notification1:
  assumes "findBooking d ''b1'' \<noteq> None"
  shows "handlePaymentNotification parseFloat1 config1 notification1 d
     = (Inr (), createAuditLog
          (paymentAudit ''b1'' (verifyPaymentNotification parseFloat1 config1 notification1))
          (d\<lparr>bookings := map (\<lambda>b. if b_id b = ''b1''
                 then b\<lparr>b_paymentStatus := Pay_HELD_IN_ESCROW\<rparr> else b) (bookings d)\<rparr>))"
proof -
  have st: "mapToPrismaPaymentStatus
      (v_status (verifyPaymentNotification parseFloat1 config1 notification1))
        = Pay_HELD_IN_ESCROW"
    by (simp add: status1)
  show ?thesis
    using handlePaymentNotification_Inr_iff [OF st, of d "()"] valid1 assms
    by (simp add: custom_1_notification1)
qed

lemma releaseEscrowPayment_held:
  assumes "findBooking d k = Some b" and "b_paymentStatus b = Pay_HELD_IN_ESCROW"
  shows "releaseEscrowPayment now k d
     = (Inr (), createAuditLog
          \<lparr>a_userId = None, a_action = ''PAYMENT_RELEASED'', a_entityType = ''Booking'',
           a_entityId = k, a_oldValues = None,
           a_newValues = JObject
             [(''paymentStatus'', JString (PaymentStatus_text Pay_RELEASED)),
              (''releasedAt'', JString now)],
           a_reason = None\<rparr>
          (d\<lparr>bookings := map (\<lambda>b. if b_id b = k
                 then b\<lparr>b_paymentStatus := Pay_RELEASED\<rparr> else b) (bookings d)\<rparr>))"
  using assms by (simp add: releaseEscrowPayment_def updateBooking_def)

lemma bookings_db1_paid:
  "bookings db1_paid = [booking1\<lparr>b_paymentStatus := Pay_HELD_IN_ESCROW\<rparr>, booking2]"
  unfolding db1_paid_def
  by (simp add: handle_notification1 findBooking_db1_b1 createAuditLog_def)
     (simp add: db1_def booking1_def booking2_def)

lemma auditLogs_db1_paid:
  "auditLogs db1_paid
     = [paymentAudit ''b1'' (verifyPaymentNotification parseFloat1 config1 notification1)]"
  unfolding db1_paid_def
  by (simp add: handle_notification1 findBooking_db1_b1 createAuditLog_def)
     (simp add: db1_def)

lemma findBooking_db1_paid:
  "findBooking db1_paid ''b1'' = Some (booking1\<lparr>b_paymentStatus := Pay_HELD_IN_ESCROW\<rparr>)"
  by (simp add: findBooking_def bookings_db1_paid booking1_def)

lemma bookings_db1_released:
  "bookings db1_released = [booking1\<lparr>b_paymentStatus := Pay_RELEASED\<rparr>, booking2]"
  unfolding db1_released_def
  by (simp add: releaseEscrowPayment_held [OF findBooking_db1_paid] createAuditLog_def
      bookings_db1_paid)
     (simp add: booking1_def booking2_def)

lemma findBooking_db1_released:
  "findBooking db1_released ''b1'' = Some (booking1\<lparr>b_paymentStatus := Pay_RELEASED\<rparr>)"
  by (simp add: findBooking_def bookings_db1_released booking1_def)

text \<open>
  The claim as stated says that the second delivery is discarded. Here the second
  delivery of \<open>notification1\<close> returns and leaves a second audit row; and when the escrow
  was released in between, the redelivered notification puts the payment back to
  \<open>HELD_IN_ESCROW\<close>.
\<close>

theorem duplicate_not_discarded_counterexample:
  "fst (handlePaymentNotification parseFloat1 config1 notification1 db1) = Inr ()
   \<and> snd (handlePaymentNotification parseFloat1 config1 notification1 db1) = db1_paid
   \<and> fst (handlePaymentNotification parseFloat1 config1 notification1 db1_paid) = Inr ()
   \<and> snd (handlePaymentNotification parseFloat1 config1 notification1 db1_paid) \<noteq> db1_paid
   \<and> length (auditLogs db1_paid) = 1
   \<and> length (auditLogs (snd (handlePaymentNotification parseFloat1 config1 notification1 db1_paid))) = 2
   \<and> map b_paymentStatus (bookings db1_released) = [Pay_RELEASED, Pay_HELD_IN_ESCROW]
   \<and> fst (handlePaymentNotification parseFloat1 config1 notification1 db1_released) = Inr ()
   \<and> map b_paymentStatus
        (bookings (snd (handlePaymentNotification parseFloat1 config1 notification1 db1_released)))
       = [Pay_HELD_IN_ESCROW, Pay_HELD_IN_ESCROW]"
proof -
  have f0: "findBooking db1 ''b1'' \<noteq> None"
    by (simp add: findBooking_db1_b1)
  have f1: "findBooking db1_paid ''b1'' \<noteq> None"
    by (simp add: findBooking_db1_paid)
  have f2: "findBooking db1_released ''b1'' \<noteq> None"
    by (simp add: findBooking_db1_released)
  have a: "length (auditLogs (snd (handlePaymentNotification parseFloat1 config1 notification1 db1_paid))) = 2"
    by (simp add: handle_notification1 [OF f1] createAuditLog_def auditLogs_db1_paid)
  then have b: "snd (handlePaymentNotification parseFloat1 config1 notification1 db1_paid) \<noteq> db1_paid"
    by (auto simp: auditLogs_db1_paid)
  have c: "map b_paymentStatus (bookings db1_released) = [Pay_RELEASED, Pay_HELD_IN_ESCROW]"
    by (simp add: bookings_db1_released booking2_def)
  have d: "map b_paymentStatus
        (bookings (snd (handlePaymentNotification parseFloat1 config1 notification1 db1_released)))
       = [Pay_HELD_IN_ESCROW, Pay_HELD_IN_ESCROW]"
    by (simp add: handle_notification1 [OF f2] createAuditLog_def bookings_db1_released)
       (simp add: booking1_def booking2_def)
  have e0: "fst (handlePaymentNotification parseFloat1 config1 notification1 db1) = Inr ()"
    by (simp add: handle_notification1 [OF f0])
  have e1: "snd (handlePaymentNotification parseFloat1 config1 notification1 db1) = db1_paid"
    by (simp add: db1_paid_def)
  have e2: "fst (handlePaymentNotification parseFloat1 config1 notification1 db1_paid) = Inr ()"
    by (simp add: handle_notification1 [OF f1])
  have e3: "length (auditLogs db1_paid) = 1"
    by (simp add: auditLogs_db1_paid)
  have e4: "fst (handlePaymentNotification parseFloat1 config1 notification1 db1_released) = Inr ()"
    by (simp add: handle_notification1 [OF f2])
  from a b c d e0 e1 e2 e3 e4 show ?thesis
    by blast
qed

text \<open>
  C2. The claim is that a release fails unless the booking is \<open>COMPLETED\<close>.
  \<open>releaseEscrowPayment\<close> reads the payment status only: for \<open>booking2\<close>, which is
  \<open>IN_PROGRESS\<close> with its payment \<open>HELD_IN_ESCROW\<close>, it returns, sets the payment status
  to \<open>RELEASED\<close> and logs the release.
\<close>

theorem releaseEscrowPayment_before_completion:
  "findBooking db1 ''b2'' = Some booking2
   \<and> b_status booking2 = IN_PROGRESS
   \<and> b_paymentStatus booking2 = Pay_HELD_IN_ESCROW
   \<and> fst (releaseEscrowPayment ''2025-01-01T10:00:00.000Z'' ''b2'' db1) = Inr ()
   \<and> map (\<lambda>b. (b_id b, b_status b, b_paymentStatus b))
        (bookings (snd (releaseEscrowPayment ''2025-01-01T10:00:00.000Z'' ''b2'' db1)))
       = [(''b1'', PENDING, Pay_PENDING), (''b2'', IN_PROGRESS, Pay_RELEASED)]
   \<and> map a_action (auditLogs (snd (releaseEscrowPayment ''2025-01-01T10:00:00.000Z'' ''b2'' db1)))
       = [''PAYMENT_RELEASED'']"
proof -
  have p: "b_paymentStatus booking2 = Pay_HELD_IN_ESCROW"
    by (simp add: booking2_def)
  show ?thesis
    by (simp add: releaseEscrowPayment_held [OF findBooking_db1_b2 p] findBooking_db1_b2
        createAuditLog_def)
       (simp add: db1_def booking1_def booking2_def)
qed

theorem handlePaymentNotification_redelivery_witness:
  "handlePaymentNotification parseFloat1 config1 notification1 db1 = (Inr (), db1_paid)
   \<and> v_status (verifyPaymentNotification parseFloat1 config1 notification1) = VS_SUCCESS
   \<and> handlePaymentNotification parseFloat1 config1 notification1 db1_paid
       = (Inr (), db1_paid\<lparr>auditLogs := auditLogs db1_paid
            @ [paymentAudit ''b1'' (verifyPaymentNotification parseFloat1 config1 notification1)]\<rparr>)
   \<and> snd (handlePaymentNotification parseFloat1 config1 notification1 db1_paid) \<noteq> db1_paid
   \<and> map b_paymentStatus (bookings db1_paid) = [Pay_HELD_IN_ESCROW, Pay_HELD_IN_ESCROW]"
proof -
  have h1: "handlePaymentNotification parseFloat1 config1 notification1 db1 = (Inr (), db1_paid)"
    by (simp add: db1_paid_def handle_notification1 findBooking_db1_b1)
  note t = handlePaymentNotification_redelivery [OF h1 status1,
      unfolded custom_1_notification1 option.sel]
  have m: "map b_paymentStatus (bookings db1_paid) = [Pay_HELD_IN_ESCROW, Pay_HELD_IN_ESCROW]"
    by (simp add: bookings_db1_paid booking2_def)
  from t h1 status1 m show ?thesis
    by blast
qed

section \<open>Rounding to binary64\<close>

lemma bitlength_bounds:
  "0 < n \<Longrightarrow> 2 ^ (bitlength n - 1) \<le> n \<and> n < 2 ^ bitlength n"
proof (induction n rule: bitlength.induct)
  case (1 n)
  show ?case
  proof (cases "n div 2 = 0")
    case True
    with "1.prems" have "n = 1" by presburger
    then show ?thesis by (simp add: bitlength.simps)
  next
    case False
    then have pos: "0 < n div 2" by simp
    from "1.prems" have n0: "n \<noteq> 0" by simp
    from "1.IH" [OF n0 pos]
    have ih: "2 ^ (bitlength (n div 2) - 1) \<le> n div 2" "n div 2 < 2 ^ bitlength (n div 2)"
      by simp_all
    have bl: "bitlength n = Suc (bitlength (n div 2))"
      using n0 by (subst bitlength.simps) simp
    have bpos: "0 < bitlength (n div 2)"
      using pos by (subst bitlength.simps) simp
    then obtain k where k: "bitlength (n div 2) = Suc k"
      by (cases "bitlength (n div 2)") simp_all
    from ih k have "2 * 2 ^ k \<le> 2 * (n div 2)" by simp
    also have "\<dots> \<le> n" by simp
    finally have lo: "2 ^ (bitlength n - 1) \<le> n" by (simp add: bl k)
    from ih(2) have "n div 2 + 1 \<le> 2 ^ bitlength (n div 2)" by simp
    then have "2 * (n div 2) + 2 \<le> 2 * 2 ^ bitlength (n div 2)" by simp
    moreover have "n < 2 * (n div 2) + 2" by presburger
    ultimately have hi: "n < 2 ^ bitlength n" by (simp add: bl)
    from lo hi show ?thesis ..
  qed
qed

lemma pow2_le_real:
  assumes "(2::nat) ^ k \<le> n"
  shows "(2::real) ^ k \<le> real n"
proof -
  from assms have "real (2 ^ k) \<le> real n" by (rule of_nat_mono)
  then show ?thesis by simp
qed

lemma less_pow2_real:
  assumes "n < (2::nat) ^ Suc k"
  shows "real n + 1 \<le> 2 ^ Suc k"
proof -
  from assms have "Suc n \<le> 2 ^ Suc k" by simp
  then have "real (Suc n) \<le> real (2 ^ Suc k)" by (rule of_nat_mono)
  then show ?thesis by simp
qed

lemma bitlength_pos: "0 < n \<Longrightarrow> 0 < bitlength n"
  by (subst bitlength.simps) simp

lemma exponent_bounds:
  assumes "x \<noteq> 0"
  shows "2 powi (exponent x) \<le> \<bar>x\<bar> \<and> \<bar>x\<bar> < 2 powi (exponent x + 1)"
proof (cases "1 \<le> \<bar>x\<bar>")
  case True
  define n where "n = nat \<lfloor>\<bar>x\<bar>\<rfloor>"
  from True have n1: "0 < n" by (simp add: n_def)
  have e: "exponent x = int (bitlength n) - 1"
    using True by (simp add: exponent_def n_def)
  from bitlength_pos [OF n1] obtain k where k: "bitlength n = Suc k"
    by (cases "bitlength n") simp_all
  from bitlength_bounds [OF n1] k have b: "2 ^ k \<le> n" "n < 2 ^ Suc k" by simp_all
  have nx: "real n \<le> \<bar>x\<bar>" "\<bar>x\<bar> < real n + 1"
    using True by (simp_all add: n_def)
  have "(2::real) ^ k \<le> real n" using b(1) by (rule pow2_le_real)
  with nx have lo: "(2::real) ^ k \<le> \<bar>x\<bar>" by linarith
  have "real n + 1 \<le> 2 ^ Suc k" using b(2) by (rule less_pow2_real)
  with nx have hi: "\<bar>x\<bar> < 2 ^ Suc k" by linarith
  have e1: "exponent x = int k" by (simp add: e k)
  have e2: "exponent x + 1 = int (Suc k)" by (simp add: e k)
  show ?thesis
    unfolding e2 unfolding e1 power_int_of_nat using lo hi by simp
next
  case False
  define y where "y = 1 / \<bar>x\<bar>"
  have xpos: "0 < \<bar>x\<bar>" using assms by simp
  from False xpos have y1: "1 < y" by (simp add: y_def)
  define m where "m = nat (\<lceil>y\<rceil> - 1)"
  from y1 have c2: "2 \<le> \<lceil>y\<rceil>" by linarith
  then have m1: "0 < m" by (simp add: m_def)
  have e: "exponent x = - int (bitlength m)"
    using False by (simp add: exponent_def m_def y_def)
  from bitlength_pos [OF m1] obtain k where k: "bitlength m = Suc k"
    by (cases "bitlength m") simp_all
  from bitlength_bounds [OF m1] k have b: "2 ^ k \<le> m" "m < 2 ^ Suc k" by simp_all
  have rm: "real m = of_int \<lceil>y\<rceil> - 1"
    using c2 by (simp add: m_def)
  have my: "real m < y" "y \<le> real m + 1"
    unfolding rm by linarith+
  have "(2::real) ^ k \<le> real m" using b(1) by (rule pow2_le_real)
  with my have lo: "(2::real) ^ k < y" by linarith
  have "real m + 1 \<le> 2 ^ Suc k" using b(2) by (rule less_pow2_real)
  with my have hi: "y \<le> 2 ^ Suc k" by linarith
  have ypos: "0 < y" using y1 by linarith
  have xy: "\<bar>x\<bar> = 1 / y" by (simp add: y_def)
  have A: "1 / 2 ^ Suc k \<le> 1 / y"
    using hi ypos by (intro divide_left_mono) simp_all
  have B: "1 / y < 1 / 2 ^ k"
    using lo ypos by (intro divide_strict_left_mono) simp_all
  have "(2::real) powi (- int (Suc k)) = inverse (2 powi int (Suc k))"
    by (rule power_int_minus)
  also have "\<dots> = inverse (2 ^ Suc k)"
    by (simp only: power_int_of_nat)
  finally have p1: "(2::real) powi (exponent x) = 1 / 2 ^ Suc k"
    by (simp only: e k inverse_eq_divide)
  have e1: "exponent x + 1 = - int k"
    by (simp add: e k)
  have "(2::real) powi (- int k) = inverse (2 powi int k)"
    by (rule power_int_minus)
  also have "\<dots> = inverse (2 ^ k)"
    by (simp only: power_int_of_nat)
  finally have p2: "(2::real) powi (exponent x + 1) = 1 / 2 ^ k"
    by (simp only: e1 inverse_eq_divide)
  show ?thesis
    unfolding p1 p2 xy using A B by blast
qed


lemma roundTiesToEven_of_int [simp]: "roundTiesToEven (of_int n) = n"
  by (simp add: roundTiesToEven_def)

lemma roundTiesToEven_0 [simp]: "roundTiesToEven 0 = 0"
  by (simp add: roundTiesToEven_def)

lemma roundTiesToEven_range:
  "\<lfloor>x\<rfloor> \<le> roundTiesToEven x \<and> roundTiesToEven x \<le> \<lfloor>x\<rfloor> + 1"
  by (simp add: roundTiesToEven_def Let_def)

lemma roundTiesToEven_mono:
  assumes "x \<le> y"
  shows "roundTiesToEven x \<le> roundTiesToEven y"
proof (cases "\<lfloor>x\<rfloor> = \<lfloor>y\<rfloor>")
  case False
  with assms have "\<lfloor>x\<rfloor> < \<lfloor>y\<rfloor>"
    using floor_mono [OF assms] by linarith
  with roundTiesToEven_range [of x] roundTiesToEven_range [of y] show ?thesis
    by linarith
next
  case True
  with assms show ?thesis
    by (simp add: roundTiesToEven_def Let_def)
qed

lemma ulp_pos: "0 < ulp x"
  by (simp add: ulp_def)

lemma fl_nonneg:
  assumes "0 \<le> x"
  shows "0 \<le> fl x"
proof -
  from assms ulp_pos [of x] have "0 \<le> x / ulp x" by simp
  then have "roundTiesToEven 0 \<le> roundTiesToEven (x / ulp x)"
    by (rule roundTiesToEven_mono)
  then have "0 \<le> roundTiesToEven (x / ulp x)" by simp
  with ulp_pos [of x] show ?thesis
    by (simp add: fl_def)
qed

lemma fl_0 [simp]: "fl 0 = 0"
  by (simp add: fl_def roundTiesToEven_def)


lemma exponent_mono_pos:
  assumes "0 < x" and "x \<le> y"
  shows "exponent x \<le> exponent y"
proof (rule ccontr)
  assume "\<not> exponent x \<le> exponent y"
  then have "exponent y + 1 \<le> exponent x" by simp
  then have "(2::real) powi (exponent y + 1) \<le> 2 powi (exponent x)"
    by (rule power_int_increasing) simp
  moreover from assms exponent_bounds [of x] have "2 powi (exponent x) \<le> x" by simp
  moreover from assms exponent_bounds [of y] have "y < 2 powi (exponent y + 1)" by simp
  ultimately show False using assms(2) by linarith
qed

lemma powi_split:
  "(2::real) powi (a + int n) = 2 ^ n * 2 powi a"
proof -
  have "(2::real) powi (a + int n) = 2 powi a * 2 powi (int n)"
    by (rule power_int_add) simp
  then show ?thesis by (simp add: mult.commute)
qed

lemma fl_le_pow2:
  assumes "x < 2 powi (c + 1)" and "ulp x = 2 powi (c - 52)"
  shows "fl x \<le> 2 powi (c + 1)"
proof -
  define P :: real where "P = 2 ^ 53"
  have "c + 1 = (c - 52) + int 53" by simp
  then have split: "(2::real) powi (c + 1) = P * ulp x"
    unfolding P_def assms(2) by (simp only: powi_split)
  have P_int: "P = real_of_int (2 ^ 53)" by (simp add: P_def)
  from assms(1) have "x < P * ulp x" by (simp only: split)
  then have "x / ulp x \<le> P"
    using ulp_pos [of x] by (simp add: pos_divide_le_eq)
  then have "roundTiesToEven (x / ulp x) \<le> roundTiesToEven (real_of_int (2 ^ 53))"
    unfolding P_int by (rule roundTiesToEven_mono)
  then have "roundTiesToEven (x / ulp x) \<le> 2 ^ 53"
    by (simp only: roundTiesToEven_of_int)
  then have "real_of_int (roundTiesToEven (x / ulp x)) \<le> P"
    unfolding P_int by (simp only: of_int_le_iff)
  then have "real_of_int (roundTiesToEven (x / ulp x)) * ulp x \<le> P * ulp x"
    using ulp_pos [of x] by (simp only: mult_le_cancel_right_pos)
  then show ?thesis
    by (simp only: fl_def split)
qed

lemma pow2_le_fl:
  assumes "2 powi c \<le> x" and "ulp x = 2 powi (c - 52)"
  shows "2 powi c \<le> fl x"
proof -
  define P :: real where "P = 2 ^ 52"
  have "c = (c - 52) + int 52" by simp
  then have "(2::real) powi c = 2 powi ((c - 52) + int 52)" by simp
  then have split: "(2::real) powi c = P * ulp x"
    unfolding P_def assms(2) by (simp only: powi_split)
  have P_int: "P = real_of_int (2 ^ 52)" by (simp add: P_def)
  from assms(1) have "P * ulp x \<le> x" by (simp only: split)
  then have "P \<le> x / ulp x"
    using ulp_pos [of x] by (simp add: pos_le_divide_eq)
  then have "roundTiesToEven (real_of_int (2 ^ 52)) \<le> roundTiesToEven (x / ulp x)"
    unfolding P_int by (rule roundTiesToEven_mono)
  then have "2 ^ 52 \<le> roundTiesToEven (x / ulp x)"
    by (simp only: roundTiesToEven_of_int)
  then have "P \<le> real_of_int (roundTiesToEven (x / ulp x))"
    unfolding P_int by (simp only: of_int_le_iff)
  then have "P * ulp x \<le> real_of_int (roundTiesToEven (x / ulp x)) * ulp x"
    using ulp_pos [of x] by (simp only: mult_le_cancel_right_pos)
  then show ?thesis
    by (simp only: fl_def split)
qed

lemma fl_mono_pos:
  assumes "0 < x" and "x \<le> y"
  shows "fl x \<le> fl y"
proof -
  define a where "a = max (exponent x) (- 1022)"
  define b where "b = max (exponent y) (- 1022)"
  have ux: "ulp x = 2 powi (a - 52)" by (simp add: ulp_def a_def)
  have uy: "ulp y = 2 powi (b - 52)" by (simp add: ulp_def b_def)
  from exponent_mono_pos [OF assms] have ab: "a \<le> b"
    by (simp add: a_def b_def)
  show ?thesis
  proof (cases "a = b")
    case True
    then have u: "ulp x = ulp y" by (simp add: ux uy)
    from assms(2) ulp_pos [of y] have "x / ulp y \<le> y / ulp y"
      by (simp add: divide_right_mono)
    then have "roundTiesToEven (x / ulp y) \<le> roundTiesToEven (y / ulp y)"
      by (rule roundTiesToEven_mono)
    then have "real_of_int (roundTiesToEven (x / ulp y)) * ulp y
        \<le> real_of_int (roundTiesToEven (y / ulp y)) * ulp y"
      using ulp_pos [of y] by (simp add: mult_right_mono)
    then show ?thesis by (simp add: fl_def u)
  next
    case False
    with ab have lt: "a + 1 \<le> b" by simp
    then have bb: "b = exponent y" "exponent x \<le> a"
      by (simp_all add: a_def b_def)
    have ypos: "0 < y" using assms by linarith
    from assms(1) exponent_bounds [of x] have "x < 2 powi (exponent x + 1)" by simp
    also have "\<dots> \<le> 2 powi (a + 1)"
      using bb(2) by (intro power_int_increasing) simp_all
    finally have xa: "x < 2 powi (a + 1)" .
    from xa ux have fx: "fl x \<le> 2 powi (a + 1)" by (rule fl_le_pow2)
    have "(2::real) powi (a + 1) \<le> 2 powi b"
      using lt by (intro power_int_increasing) simp_all
    with fx have fxb: "fl x \<le> 2 powi b" by linarith
    from ypos exponent_bounds [of y] have yb: "2 powi b \<le> y" by (simp add: bb(1))
    from yb uy have "2 powi b \<le> fl y" by (rule pow2_le_fl)
    with fxb show ?thesis by linarith
  qed
qed

lemma fl_mono_nonneg:
  assumes "0 \<le> x" and "x \<le> y"
  shows "fl x \<le> fl y"
proof (cases "x = 0")
  case True
  with assms fl_nonneg [of y] show ?thesis by simp
next
  case False
  with assms have "0 < x" by simp
  then show ?thesis using assms(2) by (rule fl_mono_pos)
qed

lemma roundTiesToEven_minus: "roundTiesToEven (- x) = - roundTiesToEven x"
proof (cases "x = of_int \<lfloor>x\<rfloor>")
  case True
  then obtain n where "x = of_int n" ..
  then have "roundTiesToEven (- x) = roundTiesToEven (of_int (- n))" by simp
  also have "\<dots> = - n" by (rule roundTiesToEven_of_int)
  finally show ?thesis using \<open>x = of_int n\<close> by simp
next
  case False
  define f where "f = \<lfloor>x\<rfloor>"
  have fx: "of_int f < x" "x < of_int f + 1"
    using False unfolding f_def by linarith+
  then have fl: "\<lfloor>- x\<rfloor> = - f - 1"
    by (intro floor_unique) simp_all
  show ?thesis
    unfolding roundTiesToEven_def Let_def fl f_def [symmetric]
    using fx by (auto simp: field_simps)
qed


lemma exponent_minus [simp]: "exponent (- x) = exponent x"
  by (simp add: exponent_def)

lemma ulp_minus [simp]: "ulp (- x) = ulp x"
  by (simp add: ulp_def)

lemma fl_minus: "fl (- x) = - fl x"
  by (simp add: fl_def roundTiesToEven_minus)

lemma fl_nonpos:
  assumes "x \<le> 0"
  shows "fl x \<le> 0"
proof -
  from assms have "0 \<le> fl (- x)" by (intro fl_nonneg) simp
  then show ?thesis by (simp add: fl_minus)
qed

lemma fl_mono:
  assumes "x \<le> y"
  shows "fl x \<le> fl y"
proof (cases "0 \<le> x")
  case True
  then show ?thesis using assms by (rule fl_mono_nonneg)
next
  case False
  show ?thesis
  proof (cases "0 \<le> y")
    case True
    from False have "fl x \<le> 0" by (intro fl_nonpos) simp
    also from True have "0 \<le> fl y" by (rule fl_nonneg)
    finally show ?thesis .
  next
    case yneg: False
    then have "0 < - y" by simp
    moreover from assms have "- y \<le> - x" by simp
    ultimately have "fl (- y) \<le> fl (- x)" by (rule fl_mono_pos)
    then show ?thesis by (simp add: fl_minus)
  qed
qed

lemma toNumber_mono:
  assumes "x \<le> y"
  shows "num_le (toNumber x) (toNumber y)"
  using fl_mono [OF assms] by (simp add: toNumber_def Let_def)

lemma Math_round_mono:
  assumes "num_le a b"
  shows "num_le (Math_round a) (Math_round b)"
proof (cases a)
  case (Finite x)
  then show ?thesis using assms by (cases b) (simp_all add: floor_mono)
next
  case PosInf
  then show ?thesis using assms by (cases b) simp_all
next
  case NegInf
  then show ?thesis using assms by (cases b) simp_all
next
  case NaN
  then show ?thesis using assms by simp
qed

lemma num_div_pos_mono:
  assumes "num_le a b" and "0 < c"
  shows "num_le (num_div a (Finite c)) (num_div b (Finite c))"
proof (cases a)
  case fa: (Finite x)
  show ?thesis
  proof (cases b)
    case (Finite y)
    with fa assms have "x / c \<le> y / c" by (simp add: divide_right_mono)
    then have "num_le (toNumber (x / c)) (toNumber (y / c))" by (rule toNumber_mono)
    with fa Finite assms(2) show ?thesis by simp
  next
    case PosInf
    with fa assms(2) show ?thesis by (simp add: toNumber_def Let_def)
  next
    case NegInf
    with fa assms show ?thesis by simp
  next
    case NaN
    with fa assms show ?thesis by simp
  qed
next
  case PosInf
  then show ?thesis using assms by (cases b) simp_all
next
  case NegInf
  then show ?thesis using assms by (cases b) (simp_all add: toNumber_def Let_def)
next
  case NaN
  then show ?thesis using assms by simp
qed

section \<open>The fee split in binary64\<close>

lemmas fl_eval = fl_def ulp_def exponent_def bitlength.simps power_int_minus roundTiesToEven_def Let_def

lemma MAX_VALUE_big: "1000000 < MAX_VALUE"
  by (simp add: MAX_VALUE_def)

lemma toNumber_small:
  assumes "fl x = y" and "\<bar>y\<bar> \<le> 1000000"
  shows "toNumber x = Finite y"
proof -
  from assms(2) MAX_VALUE_big have "\<not> MAX_VALUE < y" "\<not> y < - MAX_VALUE"
    by linarith+
  then show ?thesis
    by (simp add: toNumber_def Let_def assms(1))
qed

lemma lit_10: "lit 10 = Finite 10"
  unfolding lit_def by (rule toNumber_small) (simp_all add: fl_eval)

lemma lit_100: "lit 100 = Finite 100"
  unfolding lit_def by (rule toNumber_small) (simp_all add: fl_eval)

lemma lit_1000: "lit 1000 = Finite 1000"
  unfolding lit_def by (rule toNumber_small) (simp_all add: fl_eval)

lemma fl_tenth: "fl (1 / 10) = 3602879701896397 / 36028797018963968"
  by (simp add: fl_eval)

lemma fee_rate:
  "num_div PLATFORM_FEE_PERCENTAGE (Finite 100) = Finite (3602879701896397 / 36028797018963968)"
  unfolding PLATFORM_FEE_PERCENTAGE_def lit_10
  by (simp add: toNumber_small [OF fl_tenth])

lemma fl_a_t: "fl (2509 / 25) = 7062207165670359 / 70368744177664"
  by (simp add: fl_eval)

lemma fl_a_a: "fl (25444282847781021815168071796523 / 2535301200456458802993406410752) = 176555179141759 / 17592186044416"
  by (simp add: fl_eval)

lemma fl_a_b: "fl (4413879478543975 / 4398046511104) = 4413879478543975 / 4398046511104"
  by (simp add: fl_eval)

lemma fl_a_fee: "fl (251 / 25) = 1413004383087493 / 140737488355328"
  by (simp add: fl_eval)

lemma fl_a_pay: "fl (12711409948253225 / 140737488355328) = 1588926243531653 / 17592186044416"
  by (simp add: fl_eval)

lemma fl_a_sum: "fl (14124414331340717 / 140737488355328) = 3531103582835179 / 35184372088832"
  by (simp add: fl_eval)

lemma breakdown_a:
  "calculatePaymentBreakdown (lit (10036 / 100))
     = \<lparr>totalAmount = Finite (7062207165670359 / 70368744177664), platformFee = Finite (1413004383087493 / 140737488355328),
        providerPayout = Finite (1588926243531653 / 17592186044416)\<rparr>"
proof -
  have t: "lit (10036 / 100) = Finite (7062207165670359 / 70368744177664)"
    unfolding lit_def by (rule toNumber_small) (simp_all add: fl_a_t)
  have a: "num_mul (Finite (7062207165670359 / 70368744177664)) (Finite (3602879701896397 / 36028797018963968))
      = Finite (176555179141759 / 17592186044416)"
    by (simp add: toNumber_small [OF fl_a_a])
  have b: "num_mul (Finite (176555179141759 / 17592186044416)) (Finite 100) = Finite (4413879478543975 / 4398046511104)"
    by (simp add: toNumber_small [OF fl_a_b])
  have k: "Math_round (Finite (4413879478543975 / 4398046511104)) = Finite 1004"
    by simp
  have fee: "num_div (Finite 1004) (Finite 100) = Finite (1413004383087493 / 140737488355328)"
    by (simp add: toNumber_small [OF fl_a_fee])
  have pay: "num_sub (Finite (7062207165670359 / 70368744177664)) (Finite (1413004383087493 / 140737488355328)) = Finite (1588926243531653 / 17592186044416)"
    by (simp add: num_sub_def toNumber_small [OF fl_a_pay])
  show ?thesis
    unfolding calculatePaymentBreakdown_def Let_def
    by (simp only: lit_100 fee_rate t a b k fee pay)
qed

lemma sum_a:
  "num_add (Finite (1413004383087493 / 140737488355328)) (Finite (1588926243531653 / 17592186044416)) = Finite (3531103582835179 / 35184372088832)"
  by (simp add: toNumber_small [OF fl_a_sum])

lemma fl_b_t: "fl (207 / 20) = 5826532017910579 / 562949953421312"
  by (simp add: fl_eval)

lemma fl_b_a: "fl (20992293939779479333515868283863 / 20282409603651670423947251286016) = 4661225614328463 / 4503599627370496"
  by (simp add: fl_eval)

lemma fl_b_b: "fl (116530640358211575 / 1125899906842624) = 7283165022388223 / 70368744177664"
  by (simp add: fl_eval)

lemma fl_b_fee: "fl (103 / 100) = 4638707616191611 / 4503599627370496"
  by (simp add: fl_eval)

lemma fl_b_pay: "fl (41973548527093021 / 4503599627370496) = 1311673391471657 / 140737488355328"
  by (simp add: fl_eval)

lemma fl_b_sum: "fl (46612256143284635 / 4503599627370496) = 5826532017910579 / 562949953421312"
  by (simp add: fl_eval)

lemma breakdown_b:
  "calculatePaymentBreakdown (lit (1035 / 100))
     = \<lparr>totalAmount = Finite (5826532017910579 / 562949953421312), platformFee = Finite (4638707616191611 / 4503599627370496),
        providerPayout = Finite (1311673391471657 / 140737488355328)\<rparr>"
proof -
  have t: "lit (1035 / 100) = Finite (5826532017910579 / 562949953421312)"
    unfolding lit_def by (rule toNumber_small) (simp_all add: fl_b_t)
  have a: "num_mul (Finite (5826532017910579 / 562949953421312)) (Finite (3602879701896397 / 36028797018963968))
      = Finite (4661225614328463 / 4503599627370496)"
    by (simp add: toNumber_small [OF fl_b_a])
  have b: "num_mul (Finite (4661225614328463 / 4503599627370496)) (Finite 100) = Finite (7283165022388223 / 70368744177664)"
    by (simp add: toNumber_small [OF fl_b_b])
  have k: "Math_round (Finite (7283165022388223 / 70368744177664)) = Finite 103"
    by simp
  have fee: "num_div (Finite 103) (Finite 100) = Finite (4638707616191611 / 4503599627370496)"
    by (simp add: toNumber_small [OF fl_b_fee])
  have pay: "num_sub (Finite (5826532017910579 / 562949953421312)) (Finite (4638707616191611 / 4503599627370496)) = Finite (1311673391471657 / 140737488355328)"
    by (simp add: num_sub_def toNumber_small [OF fl_b_pay])
  show ?thesis
    unfolding calculatePaymentBreakdown_def Let_def
    by (simp only: lit_100 fee_rate t a b k fee pay)
qed

lemma sum_b:
  "num_add (Finite (4638707616191611 / 4503599627370496)) (Finite (1311673391471657 / 140737488355328)) = Finite (5826532017910579 / 562949953421312)"
  by (simp add: toNumber_small [OF fl_b_sum])

lemma fl_c_t: "fl (87 / 20) = 2448832297382707 / 562949953421312"
  by (simp add: fl_eval)

lemma fl_c_a: "fl (8822848177588476403607573406679 / 20282409603651670423947251286016) = 7836263351624663 / 18014398509481984"
  by (simp add: fl_eval)

lemma fl_c_b: "fl (195906583790616575 / 4503599627370496) = 87 / 2"
  by (simp add: fl_eval)

lemma fl_c_fee: "fl (11 / 25) = 7926335344172073 / 18014398509481984"
  by (simp add: fl_eval)

lemma fl_c_pay: "fl (70436298172074551 / 18014398509481984) = 8804537271509319 / 2251799813685248"
  by (simp add: fl_eval)

lemma fl_c_sum: "fl (78362633516246625 / 18014398509481984) = 2448832297382707 / 562949953421312"
  by (simp add: fl_eval)

lemma breakdown_c:
  "calculatePaymentBreakdown (lit (435 / 100))
     = \<lparr>totalAmount = Finite (2448832297382707 / 562949953421312), platformFee = Finite (7926335344172073 / 18014398509481984),
        providerPayout = Finite (8804537271509319 / 2251799813685248)\<rparr>"
proof -
  have t: "lit (435 / 100) = Finite (2448832297382707 / 562949953421312)"
    unfolding lit_def by (rule toNumber_small) (simp_all add: fl_c_t)
  have a: "num_mul (Finite (2448832297382707 / 562949953421312)) (Finite (3602879701896397 / 36028797018963968))
      = Finite (7836263351624663 / 18014398509481984)"
    by (simp add: toNumber_small [OF fl_c_a])
  have b: "num_mul (Finite (7836263351624663 / 18014398509481984)) (Finite 100) = Finite (87 / 2)"
    by (simp add: toNumber_small [OF fl_c_b])
  have k: "Math_round (Finite (87 / 2)) = Finite 44"
    by simp
  have fee: "num_div (Finite 44) (Finite 100) = Finite (7926335344172073 / 18014398509481984)"
    by (simp add: toNumber_small [OF fl_c_fee])
  have pay: "num_sub (Finite (2448832297382707 / 562949953421312)) (Finite (7926335344172073 / 18014398509481984)) = Finite (8804537271509319 / 2251799813685248)"
    by (simp add: num_sub_def toNumber_small [OF fl_c_pay])
  show ?thesis
    unfolding calculatePaymentBreakdown_def Let_def
    by (simp only: lit_100 fee_rate t a b k fee pay)
qed

lemma sum_c:
  "num_add (Finite (7926335344172073 / 18014398509481984)) (Finite (8804537271509319 / 2251799813685248)) = Finite (2448832297382707 / 562949953421312)"
  by (simp add: toNumber_small [OF fl_c_sum])

text \<open>
  C3. The claim is that the fee is the gross amount's tenth under one rounding rule and
  that fee and payout add up to the gross amount exactly. The amounts are binary64
  numbers. For 100.36 the fee is 10.04 and the payout 90.32, and their sum is
  100.35999999999999, not 100.36. For 10.35 the fee is 1.03 (the tie 1.035 goes down)
  while for 4.35 it is 0.44 (the tie 0.435 goes up).
\<close>

theorem calculatePaymentBreakdown_binary64:
  "calculatePaymentBreakdown (lit (10036 / 100))
     = \<lparr>totalAmount = lit (10036 / 100), platformFee = lit (1004 / 100),
        providerPayout = lit (9032 / 100)\<rparr>
   \<and> num_add (platformFee (calculatePaymentBreakdown (lit (10036 / 100))))
         (providerPayout (calculatePaymentBreakdown (lit (10036 / 100))))
       = Finite (3531103582835179 / 35184372088832)
   \<and> num_add (platformFee (calculatePaymentBreakdown (lit (10036 / 100))))
         (providerPayout (calculatePaymentBreakdown (lit (10036 / 100))))
       \<noteq> totalAmount (calculatePaymentBreakdown (lit (10036 / 100)))
   \<and> platformFee (calculatePaymentBreakdown (lit (1035 / 100))) = lit (103 / 100)
   \<and> platformFee (calculatePaymentBreakdown (lit (435 / 100))) = lit (44 / 100)"
proof -
  have t: "lit (10036 / 100) = Finite (7062207165670359 / 70368744177664)"
    unfolding lit_def by (rule toNumber_small) (simp_all add: fl_a_t)
  have f: "lit (1004 / 100) = Finite (1413004383087493 / 140737488355328)"
    unfolding lit_def by (rule toNumber_small) (simp_all add: fl_eval)
  have p: "lit (9032 / 100) = Finite (1588926243531653 / 17592186044416)"
    unfolding lit_def by (rule toNumber_small) (simp_all add: fl_eval)
  have f2: "lit (103 / 100) = Finite (4638707616191611 / 4503599627370496)"
    unfolding lit_def by (rule toNumber_small) (simp_all add: fl_eval)
  have f3: "lit (44 / 100) = Finite (7926335344172073 / 18014398509481984)"
    unfolding lit_def by (rule toNumber_small) (simp_all add: fl_eval)
  have tb: "lit (1035 / 100) = Finite (5826532017910579 / 562949953421312)"
    unfolding lit_def by (rule toNumber_small) (simp_all add: fl_b_t)
  have tc: "lit (435 / 100) = Finite (2448832297382707 / 562949953421312)"
    unfolding lit_def by (rule toNumber_small) (simp_all add: fl_c_t)
  note ba = breakdown_a [unfolded t]
  note bb = breakdown_b [unfolded tb]
  note bc = breakdown_c [unfolded tc]
  show ?thesis
    unfolding t tb tc f p f2 f3 ba bb bc
    by (simp add: toNumber_small [OF fl_a_sum])
qed

section \<open>Provider matching: eligibility, order and failure\<close>




lemma matchQuery_length:
  "length (matchQuery ST_Distance ST_DWithin d cat lat lng radius limit) \<le> limit"
  by (simp add: matchQuery_def)

lemma matchQuery_sorted:
  "sorted_wrt (\<lambda>r1 r2. skill_trust_score r2 < skill_trust_score r1
        \<or> (skill_trust_score r1 = skill_trust_score r2 \<and> distance_meters r1 \<le> distance_meters r2))
     (matchQuery ST_Distance ST_DWithin d cat lat lng radius limit)"
proof -
  let ?key = "\<lambda>r. (- skill_trust_score r, distance_meters r)"
  let ?rows = "map (matchSelect ST_Distance lat lng)
             (filter (matchWhere ST_DWithin cat lat lng radius) (matchJoin d))"
  have "sorted (map ?key (sort_key ?key ?rows))"
    by (rule sorted_sort_key)
  then have "sorted (take limit (map ?key (sort_key ?key ?rows)))"
    by (rule sorted_wrt_take)
  then have "sorted (map ?key (matchQuery ST_Distance ST_DWithin d cat lat lng radius limit))"
    by (simp add: matchQuery_def take_map)
  then have "sorted_wrt (\<lambda>r1 r2. ?key r1 \<le> ?key r2)
      (matchQuery ST_Distance ST_DWithin d cat lat lng radius limit)"
    by (simp add: sorted_map)
  then show ?thesis
    by (rule sorted_wrt_mono_rel [rotated]) (auto simp: less_eq_prod_def)
qed


lemma num_mul_pos_mono:
  assumes "num_le a b" and "0 < c"
  shows "num_le (num_mul a (Finite c)) (num_mul b (Finite c))"
proof (cases a)
  case fa: (Finite x)
  show ?thesis
  proof (cases b)
    case (Finite y)
    with fa assms have "x * c \<le> y * c" by (simp add: mult_right_mono)
    then have "num_le (toNumber (x * c)) (toNumber (y * c))" by (rule toNumber_mono)
    with fa Finite show ?thesis by simp
  next
    case PosInf
    with fa assms(2) show ?thesis by (simp add: toNumber_def Let_def)
  next
    case NegInf
    with fa assms show ?thesis by simp
  next
    case NaN
    with fa assms show ?thesis by simp
  qed
next
  case PosInf
  then show ?thesis using assms by (cases b) simp_all
next
  case NegInf
  then show ?thesis using assms by (cases b) (simp_all add: toNumber_def Let_def)
next
  case NaN
  then show ?thesis using assms by simp
qed

lemma num_le_Finite [simp]: "num_le (Finite a) (Finite b) \<longleftrightarrow> a \<le> b"
  by simp

lemma trustScore_mono:
  assumes "skill_trust_score r1 \<le> skill_trust_score r2"
  shows "num_le (trustScore (toMatchedProvider r1)) (trustScore (toMatchedProvider r2))"
proof -
  have "num_le (Finite (skill_trust_score r1)) (Finite (skill_trust_score r2))"
    using assms by simp
  then have "num_le (num_mul (Finite (skill_trust_score r1)) (Finite 10))
      (num_mul (Finite (skill_trust_score r2)) (Finite 10))"
    by (rule num_mul_pos_mono) simp
  then have "num_le (Math_round (num_mul (Finite (skill_trust_score r1)) (Finite 10)))
      (Math_round (num_mul (Finite (skill_trust_score r2)) (Finite 10)))"
    by (rule Math_round_mono)
  then have "num_le (num_div (Math_round (num_mul (Finite (skill_trust_score r1)) (Finite 10))) (Finite 10))
      (num_div (Math_round (num_mul (Finite (skill_trust_score r2)) (Finite 10))) (Finite 10))"
    by (rule num_div_pos_mono) simp
  then show ?thesis
    by (simp only: toMatchedProvider_def lit_10 MatchedProvider.simps)
qed

lemma distanceKm_mono:
  assumes "distance_meters r1 \<le> distance_meters r2"
  shows "num_le (distanceKm (toMatchedProvider r1)) (distanceKm (toMatchedProvider r2))"
proof -
  have "num_le (Finite (distance_meters r1)) (Finite (distance_meters r2))"
    using assms by simp
  then have "num_le (num_div (Finite (distance_meters r1)) (Finite 1000))
      (num_div (Finite (distance_meters r2)) (Finite 1000))"
    by (rule num_div_pos_mono) simp
  then have "num_le (num_mul (num_div (Finite (distance_meters r1)) (Finite 1000)) (Finite 10))
      (num_mul (num_div (Finite (distance_meters r2)) (Finite 1000)) (Finite 10))"
    by (rule num_mul_pos_mono) simp
  then have "num_le
      (Math_round (num_mul (num_div (Finite (distance_meters r1)) (Finite 1000)) (Finite 10)))
      (Math_round (num_mul (num_div (Finite (distance_meters r2)) (Finite 1000)) (Finite 10)))"
    by (rule Math_round_mono)
  then have "num_le
      (num_div (Math_round (num_mul (num_div (Finite (distance_meters r1)) (Finite 1000))
         (Finite 10))) (Finite 10))
      (num_div (Math_round (num_mul (num_div (Finite (distance_meters r2)) (Finite 1000))
         (Finite 10))) (Finite 10))"
    by (rule num_div_pos_mono) simp
  then show ?thesis
    by (simp only: toMatchedProvider_def lit_10 lit_1000 MatchedProvider.simps)
qed

lemma findMatchingProviders_Inr:
  "findMatchingProviders flt ST_Distance ST_DWithin d cat lat lng radius limit = Inr result \<longleftrightarrow>
     flt \<noteq> GeoQueryFails
     \<and> result = map toMatchedProvider (matchQuery ST_Distance ST_DWithin d cat lat lng radius limit)"
  by (auto simp: findMatchingProviders_def)

text \<open>
  C5 (as amended). The candidates are the rows of the query in its order, with trust score
  and distance rounded to one decimal: the rows are sorted by the stored trust score,
  descending, rows of equal stored score by the stored distance, ascending, and there are
  at most \<open>limit\<close> of them (50 as \<open>createBookingAndFindMatches\<close> calls it). Hence the
  returned trust scores never increase along the list, and two candidates whose stored
  scores are equal are in the order of their returned distances. Nothing is promised for
  two candidates whose trust scores are equal only after the rounding.
\<close>

theorem findMatchingProviders_order:
  "findMatchingProviders flt ST_Distance ST_DWithin d cat lat lng radius limit = Inr result \<longrightarrow>
     result = map toMatchedProvider (matchQuery ST_Distance ST_DWithin d cat lat lng radius limit)
     \<and> length result \<le> limit
     \<and> sorted_wrt (\<lambda>r1 r2. skill_trust_score r2 < skill_trust_score r1
            \<or> (skill_trust_score r1 = skill_trust_score r2
                 \<and> distance_meters r1 \<le> distance_meters r2))
          (matchQuery ST_Distance ST_DWithin d cat lat lng radius limit)
     \<and> sorted_wrt (\<lambda>c1 c2. num_le (trustScore c2) (trustScore c1)) result
     \<and> sorted_wrt (\<lambda>r1 r2. skill_trust_score r1 = skill_trust_score r2 \<longrightarrow>
            num_le (distanceKm (toMatchedProvider r1)) (distanceKm (toMatchedProvider r2)))
          (matchQuery ST_Distance ST_DWithin d cat lat lng radius limit)"
proof
  let ?rows = "matchQuery ST_Distance ST_DWithin d cat lat lng radius limit"
  assume "findMatchingProviders flt ST_Distance ST_DWithin d cat lat lng radius limit = Inr result"
  then have r: "result = map toMatchedProvider ?rows"
    by (simp add: findMatchingProviders_Inr)
  have len: "length result \<le> limit"
    by (simp add: r matchQuery_length)
  note s = matchQuery_sorted [of ST_Distance ST_DWithin d cat lat lng radius limit]
  have "sorted_wrt (\<lambda>r1 r2. num_le (trustScore (toMatchedProvider r2))
          (trustScore (toMatchedProvider r1))) ?rows"
    using s by (rule sorted_wrt_mono_rel [rotated]) (auto intro: trustScore_mono)
  then have t: "sorted_wrt (\<lambda>c1 c2. num_le (trustScore c2) (trustScore c1)) result"
    by (simp add: r sorted_wrt_map)
  have ties: "sorted_wrt (\<lambda>r1 r2. skill_trust_score r1 = skill_trust_score r2 \<longrightarrow>
            num_le (distanceKm (toMatchedProvider r1)) (distanceKm (toMatchedProvider r2))) ?rows"
    using s by (rule sorted_wrt_mono_rel [rotated]) (auto intro: distanceKm_mono)
  from r len s t ties
  show "result = map toMatchedProvider ?rows
     \<and> length result \<le> limit
     \<and> sorted_wrt (\<lambda>r1 r2. skill_trust_score r2 < skill_trust_score r1
            \<or> (skill_trust_score r1 = skill_trust_score r2
                 \<and> distance_meters r1 \<le> distance_meters r2)) ?rows
     \<and> sorted_wrt (\<lambda>c1 c2. num_le (trustScore c2) (trustScore c1)) result
     \<and> sorted_wrt (\<lambda>r1 r2. skill_trust_score r1 = skill_trust_score r2 \<longrightarrow>
            num_le (distanceKm (toMatchedProvider r1)) (distanceKm (toMatchedProvider r2))) ?rows"
    by blast
qed


lemma matchJoin_db2:
  "matchJoin db2 = map (\<lambda>(k, n, loc, ts, y).
       (\<lparr>u_id = k, u_role = ''PROVIDER'', u_is_active = (k \<noteq> ''pE'')\<rparr>,
        \<lparr>p_user_id = k, p_full_name = n, p_location = Some loc, p_isAvailable = True,
          p_emergencyName = None, p_emergencyPhone = None\<rparr>,
        \<lparr>ps_provider_id = k, ps_service_category_id = ''cat1'', ps_is_verified = True,
          ps_skill_trust_score = ts, ps_years_experience = y\<rparr>))
     [(''pA'', ''A'', (8009 / 100, 7), 2561 / 32, 5),
      (''pB'', ''B'', (8001 / 100, 7), 5121 / 64, 3),
      (''pC'', ''C'', (801 / 10, 7), 70, 2),
      (''pD'', ''D'', (8010001 / 100000, 7), 90, 9),
      (''pE'', ''E'', (80001 / 1000, 7), 95, 7)]"
  by (simp add: matchJoin_def db2_def)

lemma matchQuery_db2:
  "matchQuery gridDistance gridWithin db2 ''cat1'' 7 80 SEARCH_RADIUS_METERS MAX_PROVIDERS =
     [\<lparr>provider_id = ''pA'', full_name = ''A'', skill_trust_score = 2561 / 32,
        years_experience = 5, distance_meters = 9000\<rparr>,
      \<lparr>provider_id = ''pB'', full_name = ''B'', skill_trust_score = 5121 / 64,
        years_experience = 3, distance_meters = 1000\<rparr>,
      \<lparr>provider_id = ''pC'', full_name = ''C'', skill_trust_score = 70,
        years_experience = 2, distance_meters = 10000\<rparr>]"
  by (simp add: matchQuery_def matchJoin_db2 matchWhere_def matchSelect_def gridWithin_def
      gridDistance_def SEARCH_RADIUS_METERS_def MAX_PROVIDERS_def sort_key_def)


lemma round1_eval:
  assumes "fl (x * 10) = y" and "\<bar>y\<bar> \<le> 1000000"
    and "fl (real_of_int \<lfloor>y + 1 / 2\<rfloor> / 10) = z" and "\<bar>z\<bar> \<le> 1000000"
  shows "num_div (Math_round (num_mul (Finite x) (Finite 10))) (Finite 10) = Finite z"
  by (simp add: toNumber_small [OF assms(1,2)] toNumber_small [OF assms(3,4)])

lemma km_eval:
  assumes "fl (x / 1000) = w" and "\<bar>w\<bar> \<le> 1000000"
    and "fl (w * 10) = y" and "\<bar>y\<bar> \<le> 1000000"
    and "fl (real_of_int \<lfloor>y + 1 / 2\<rfloor> / 10) = z" and "\<bar>z\<bar> \<le> 1000000"
  shows "num_div (Math_round (num_mul (num_div (Finite x) (Finite 1000)) (Finite 10))) (Finite 10)
     = Finite z"
  by (simp add: toNumber_small [OF assms(1,2)] toNumber_small [OF assms(3,4)]
      toNumber_small [OF assms(5,6)])

lemma findMatchingProviders_db2:
  "findMatchingProviders NoFault gridDistance gridWithin db2 ''cat1'' 7 80 SEARCH_RADIUS_METERS MAX_PROVIDERS
     = Inr matched1"
proof -
  have a: "num_div (Math_round (num_mul (Finite (2561 / 32)) (Finite 10))) (Finite 10) = Finite 80"
    by (rule round1_eval [where y = "12805 / 16"]) (simp_all add: fl_eval)
  have b: "num_div (Math_round (num_mul (Finite (5121 / 64)) (Finite 10))) (Finite 10) = Finite 80"
    by (rule round1_eval [where y = "25605 / 32"]) (simp_all add: fl_eval)
  have c: "num_div (Math_round (num_mul (Finite 70) (Finite 10))) (Finite 10) = Finite 70"
    by (rule round1_eval [where y = 700]) (simp_all add: fl_eval)
  have da: "num_div (Math_round (num_mul (num_div (Finite 9000) (Finite 1000)) (Finite 10)))
      (Finite 10) = Finite 9"
    by (rule km_eval [where w = 9 and y = 90]) (simp_all add: fl_eval)
  have db: "num_div (Math_round (num_mul (num_div (Finite 1000) (Finite 1000)) (Finite 10)))
      (Finite 10) = Finite 1"
    by (rule km_eval [where w = 1 and y = 10]) (simp_all add: fl_eval)
  have dc: "num_div (Math_round (num_mul (num_div (Finite 10000) (Finite 1000)) (Finite 10)))
      (Finite 10) = Finite 10"
    by (rule km_eval [where w = 10 and y = 100]) (simp_all add: fl_eval)
  show ?thesis
    unfolding findMatchingProviders_def matchQuery_db2 matched1_def toMatchedProvider_def
      lit_10 lit_1000
    by (simp only: a b c da db dc list.map ProviderMatchRawResult.simps fault.simps if_False)
qed

text \<open>
  The claim as stated orders any adjacent pair of equal trust score by distance. The stored
  scores 80.03125 and 80.015625 both round to 80; the first candidate is 9 km away, the
  second 1 km.
\<close>

theorem tie_break_after_rounding_counterexample:
  "findMatchingProviders NoFault gridDistance gridWithin db2 ''cat1'' 7 80 SEARCH_RADIUS_METERS MAX_PROVIDERS
     = Inr matched1
   \<and> trustScore (matched1 ! 0) = trustScore (matched1 ! 1)
   \<and> distanceKm (matched1 ! 0) = Finite 9
   \<and> distanceKm (matched1 ! 1) = Finite 1
   \<and> \<not> num_le (distanceKm (matched1 ! 0)) (distanceKm (matched1 ! 1))"
  by (simp add: findMatchingProviders_db2) (simp add: matched1_def)

theorem findMatchingProviders_order_witness:
  "findMatchingProviders NoFault gridDistance gridWithin db2 ''cat1'' 7 80 SEARCH_RADIUS_METERS MAX_PROVIDERS
     = Inr matched1
   \<and> length matched1 \<le> MAX_PROVIDERS
   \<and> sorted_wrt (\<lambda>c1 c2. num_le (trustScore c2) (trustScore c1)) matched1"
  using findMatchingProviders_order [of NoFault gridDistance gridWithin db2 "''cat1''" 7 80
      SEARCH_RADIUS_METERS MAX_PROVIDERS matched1] findMatchingProviders_db2
  by blast






lemma providerId_toMatchedProvider [simp]:
  "providerId (toMatchedProvider r) = provider_id r"
  by (simp add: toMatchedProvider_def)

lemma provider_id_matchSelect [simp]:
  "provider_id (matchSelect ST_Distance lat lng (u, p, ps)) = u_id u"
  by (simp add: matchSelect_def)















text \<open>
  C10. When the customer and the service category are found and active and the
  geospatial query fails, \<open>createBookingAndFindMatches\<close> throws the
  \<open>GeospatialQueryError\<close> and the database keeps the booking created before the query:
  a new row with the given key, status \<open>PENDING\<close>, for that customer and category. The
  failure does not roll the booking back.
\<close>

theorem createBookingAndFindMatches_geo_failure:
  "find (\<lambda>u. u_id u = cb_customerId input) (users d) = Some customer \<and> u_is_active customer
   \<and> find (\<lambda>c. sc_slug c = cb_serviceCategorySlug input) (serviceCategories d) = Some cat
   \<and> sc_isActive cat \<longrightarrow>
   (\<exists>created.
      createBookingAndFindMatches GeoQueryFails ST_Distance ST_DWithin Date_parse isoText
          newId now input d
        = (Inl (GeospatialQueryError ''Failed to execute provider matching query''),
           d\<lparr>bookings := bookings d @ [created]\<rparr>)
      \<and> b_id created = newId \<and> b_status created = PENDING
      \<and> b_customerId created = cb_customerId input
      \<and> b_serviceCategoryId created = sc_id cat)"
proof
  let ?created = "\<lparr>b_id = newId, b_customerId = cb_customerId input,
     b_serviceCategoryId = sc_id cat, b_status = PENDING, b_paymentStatus = Pay_PENDING,
     b_careRecipientName = cb_careRecipientName input,
     b_locationLat = bl_lat (cb_location input), b_locationLng = bl_lng (cb_location input),
     b_locationAddress = bl_address (cb_location input),
     b_scheduledDate = newDate Date_parse (cb_scheduledDate input),
     b_notes = (if truthy (cb_notes input) then cb_notes input else None),
     b_cancellationReason = None, b_createdAt = TimeValue now\<rparr>"
  assume "find (\<lambda>u. u_id u = cb_customerId input) (users d) = Some customer \<and> u_is_active customer
   \<and> find (\<lambda>c. sc_slug c = cb_serviceCategorySlug input) (serviceCategories d) = Some cat
   \<and> sc_isActive cat"
  then have "createBookingAndFindMatches GeoQueryFails ST_Distance ST_DWithin Date_parse isoText
          newId now input d
        = (Inl (GeospatialQueryError ''Failed to execute provider matching query''),
           d\<lparr>bookings := bookings d @ [?created]\<rparr>)"
    by (simp add: createBookingAndFindMatches_def findMatchingProviders_def Let_def)
  then show "\<exists>created.
      createBookingAndFindMatches GeoQueryFails ST_Distance ST_DWithin Date_parse isoText
          newId now input d
        = (Inl (GeospatialQueryError ''Failed to execute provider matching query''),
           d\<lparr>bookings := bookings d @ [created]\<rparr>)
      \<and> b_id created = newId \<and> b_status created = PENDING
      \<and> b_customerId created = cb_customerId input
      \<and> b_serviceCategoryId created = sc_id cat"
    by (intro exI [of _ ?created]) simp
qed

theorem createBookingAndFindMatches_geo_failure_witness:
  "find (\<lambda>u. u_id u = cb_customerId matchInput1) (users db2)
     = Some \<lparr>u_id = ''c1'', u_role = ''CUSTOMER'', u_is_active = True\<rparr>
   \<and> find (\<lambda>c. sc_slug c = cb_serviceCategorySlug matchInput1) (serviceCategories db2)
     = Some \<lparr>sc_id = ''cat1'', sc_name = ''Hospital Companion'', sc_slug = ''hospital-companion'',
          sc_isActive = True\<rparr>
   \<and> fst (createBookingAndFindMatches GeoQueryFails gridDistance gridWithin Date_parse1 isoText1
          ''b7'' 1735549200000 matchInput1 db2)
       = Inl (GeospatialQueryError ''Failed to execute provider matching query'')
   \<and> map (\<lambda>b. (b_id b, b_status b))
        (bookings (snd (createBookingAndFindMatches GeoQueryFails gridDistance gridWithin
          Date_parse1 isoText1 ''b7'' 1735549200000 matchInput1 db2)))
       = [(''b7'', PENDING)]"
proof -
  have u: "find (\<lambda>u. u_id u = cb_customerId matchInput1) (users db2)
     = Some \<lparr>u_id = ''c1'', u_role = ''CUSTOMER'', u_is_active = True\<rparr>"
    by (simp add: matchInput1_def db2_def)
  have c: "find (\<lambda>c. sc_slug c = cb_serviceCategorySlug matchInput1) (serviceCategories db2)
     = Some \<lparr>sc_id = ''cat1'', sc_name = ''Hospital Companion'', sc_slug = ''hospital-companion'',
          sc_isActive = True\<rparr>"
    by (simp add: matchInput1_def db2_def)
  have a: "u_is_active \<lparr>u_id = ''c1'', u_role = ''CUSTOMER'', u_is_active = True\<rparr>"
    "sc_isActive \<lparr>sc_id = ''cat1'', sc_name = ''Hospital Companion'',
       sc_slug = ''hospital-companion'', sc_isActive = True\<rparr>"
    by simp_all
  from createBookingAndFindMatches_geo_failure [where input = matchInput1 and d = db2
      and customer = "\<lparr>u_id = ''c1'', u_role = ''CUSTOMER'', u_is_active = True\<rparr>"
      and cat = "\<lparr>sc_id = ''cat1'', sc_name = ''Hospital Companion'',
        sc_slug = ''hospital-companion'', sc_isActive = True\<rparr>"
      and ST_Distance = gridDistance and ST_DWithin = gridWithin
      and Date_parse = Date_parse1 and isoText = isoText1 and newId = "''b7''"
      and now = 1735549200000] u c a
  obtain created where
    r: "createBookingAndFindMatches GeoQueryFails gridDistance gridWithin Date_parse1 isoText1
          ''b7'' 1735549200000 matchInput1 db2
        = (Inl (GeospatialQueryError ''Failed to execute provider matching query''),
           db2\<lparr>bookings := bookings db2 @ [created]\<rparr>)"
    and k: "b_id created = ''b7''" "b_status created = PENDING"
    by blast
  have "bookings db2 = []" by (simp add: db2_def)
  with r k u c show ?thesis by simp
qed

text \<open>
  The same request when the query succeeds: the response holds the dates as
  \<^verbatim>\<open>toISOString\<close> writes them. A scheduled date that does not parse makes an Invalid
  Date, whose text cannot be written: the call throws a \<open>DatabaseError\<close>.
\<close>

lemma createBookingAndFindMatches_dates:
  "map_sum id (\<lambda>r. (r_scheduledDate (booking r), r_createdAt (booking r)))
     (fst (createBookingAndFindMatches NoFault gridDistance gridWithin Date_parse1 isoText1
        ''b7'' 1735549200000 matchInput1 db2))
     = Inr (''2025-01-01T09:00:00.000Z'', ''2024-12-30T09:00:00.000Z'')"
  by (simp add: createBookingAndFindMatches_def matchInput1_def db2_def Let_def
      findMatchingProviders_def formatBookingResponse_def newDate_def Date_parse1_def
      isoText1_def)

lemma createBookingAndFindMatches_invalid_date:
  "fst (createBookingAndFindMatches NoFault gridDistance gridWithin Date_parse1 isoText1
        ''b7'' 1735549200000 (matchInput1\<lparr>cb_scheduledDate := ''tomorrow''\<rparr>) db2)
     = Inl (DatabaseError ''Failed to create booking and find matches'')"
  by (simp add: createBookingAndFindMatches_def matchInput1_def db2_def Let_def
      findMatchingProviders_def formatBookingResponse_def newDate_def Date_parse1_def
      isoText1_def)

section \<open>Trust score: components and range\<close>

lemma fl_1 [simp]: "fl 1 = 1"
  by (simp add: fl_eval)

lemma fl_100 [simp]: "fl 100 = 100"
  by (simp add: fl_eval)

lemma fl_w4: "fl (4 / 10) = 3602879701896397 / 9007199254740992"
  by (simp add: fl_eval)

lemma fl_100_w4: "fl (100 * fl (4 / 10)) = 40"
  unfolding fl_w4 by (simp add: fl_eval)

lemma fl_w3: "fl (3 / 10) = 5404319552844595 / 18014398509481984"
  by (simp add: fl_eval)

lemma fl_100_w3: "fl (100 * fl (3 / 10)) = 30"
  unfolding fl_w3 by (simp add: fl_eval)

lemma fl_w2: "fl (2 / 10) = 3602879701896397 / 18014398509481984"
  by (simp add: fl_eval)

lemma fl_100_w2: "fl (100 * fl (2 / 10)) = 20"
  unfolding fl_w2 by (simp add: fl_eval)

lemma fl_w1: "fl (1 / 10) = 3602879701896397 / 36028797018963968"
  by (simp add: fl_eval)

lemma fl_100_w1: "fl (100 * fl (1 / 10)) = 10"
  unfolding fl_w1 by (simp add: fl_eval)

lemma fl_int_120: "fl 120 = 120"
  by (simp add: fl_eval)

lemma fl_int_70: "fl 70 = 70"
  by (simp add: fl_eval)

lemma fl_int_90: "fl 90 = 90"
  by (simp add: fl_eval)

lemma fl_int_45: "fl 45 = 45"
  by (simp add: fl_eval)

lemma fl_int_40: "fl 40 = 40"
  by (simp add: fl_eval)

lemma fl_int_5: "fl 5 = 5"
  by (simp add: fl_eval)

lemma fl_int_130: "fl 130 = 130"
  by (simp add: fl_eval)

lemma fl_int_60: "fl 60 = 60"
  by (simp add: fl_eval)

lemma fl_int_200: "fl 200 = 200"
  by (simp add: fl_eval)

lemma fl_int_20: "fl 20 = 20"
  by (simp add: fl_eval)

lemma fl_int_10: "fl 10 = 10"
  by (simp add: fl_eval)

lemma fl_int_30: "fl 30 = 30"
  by (simp add: fl_eval)

lemma fl_50_w1: "fl (50 * fl (1 / 10)) = 5"
  unfolding fl_w1 by (simp add: fl_eval)

lemma fl_200_w3: "fl (200 * fl (3 / 10)) = 60"
  unfolding fl_w3 by (simp add: fl_eval)

lemma fl_0_w: "fl (0 * c) = 0"
  by simp


lemma fl_100_w4n: "fl (100 * fl (2 / 5)) = 40"
  using fl_100_w4 by simp

lemma fl_100_w2n: "fl (100 * fl (1 / 5)) = 20"
  using fl_100_w2 by simp

lemmas fl_consts = fl_100_w4 fl_100_w3 fl_100_w2 fl_100_w1 fl_50_w1 fl_200_w3
  fl_100_w4n fl_100_w2n fl_int_120
  fl_int_70 fl_int_90 fl_int_45 fl_int_40 fl_int_5 fl_int_130 fl_int_60 fl_int_200
  fl_int_20 fl_int_10 fl_int_30

lemma completion_rate_tables1:
  "completion_rate use_variable tables1 ''pA'' = 100"
  "completion_rate use_column tables1 ''pA'' = 100"
  by (simp_all add: completion_rate_def tables1_def Let_def)

lemma components_tables1:
  "avg_rating tables1 ''pA'' = 0"
  "verification_score tables1 ''pA'' = 0"
  "response_score tables1 ''pA'' = Some 50"
  by (simp_all add: avg_rating_def verification_score_def response_score_def tables1_def Let_def)

text \<open>
  C7. The claim is that the completion-rate component is that provider's own completed
  bookings over that provider's own bookings, and 0 when the provider has none. The
  first query of the function filters by \<^verbatim>\<open>provider_id = provider_id\<close>, which does not
  select the provider's rows. Provider \<open>pA\<close> of \<open>tables1\<close> has no booking, no review and no
  document, and another provider has one completed booking: the specified score is 5, the
  function returns 45 when the name is resolved either way, and raises an error under
  the default setting.
\<close>

theorem trust_score_counts_all_bookings:
  "specified_trust_score tables1 ''pA'' = 5
   \<and> calculate_provider_trust_score use_variable tables1 ''pA'' = Inr (Some 45)
   \<and> calculate_provider_trust_score use_column tables1 ''pA'' = Inr (Some 45)
   \<and> calculate_provider_trust_score conflict_error tables1 ''pA''
       = Inl (AmbiguousColumn ''provider_id'')"
proof -
  have s: "specified_trust_score tables1 ''pA'' = 5"
    by (simp add: specified_trust_score_def tables1_def Let_def)
  have v: "calculate_provider_trust_score use_variable tables1 ''pA'' = Inr (Some 45)"
    by (simp add: calculate_provider_trust_score_def completion_rate_tables1 components_tables1
        fl_consts)
  have c: "calculate_provider_trust_score use_column tables1 ''pA'' = Inr (Some 45)"
    by (simp add: calculate_provider_trust_score_def completion_rate_tables1 components_tables1
        fl_consts)
  have e: "calculate_provider_trust_score conflict_error tables1 ''pA''
       = Inl (AmbiguousColumn ''provider_id'')"
    by (simp add: calculate_provider_trust_score_def)
  from s v c e show ?thesis by blast
qed

lemma components_tables2:
  "completion_rate use_variable tables2 ''pA'' = 100"
  "avg_rating tables2 ''pA'' = 200"
  "verification_score tables2 ''pA'' = 100"
  "response_score tables2 ''pA'' = Some 100"
  by (simp_all add: completion_rate_def avg_rating_def verification_score_def response_score_def
      tables2_def Let_def fl_consts)

text \<open>
  The claim as stated bounds the score for any inputs. With one rating of 10 and every
  other component at its maximum the function returns 130.
\<close>

theorem trust_score_unclamped_counterexample:
  "calculate_provider_trust_score use_variable tables2 ''pA'' = Inr (Some 130)
   \<and> \<not> (130 :: real) \<le> 100"
  by (simp add: calculate_provider_trust_score_def components_tables2 fl_consts)


lemma fl_between:
  assumes "0 \<le> x" and "x \<le> b" and "fl b = b"
  shows "0 \<le> fl x \<and> fl x \<le> b"
proof
  from assms(1) show "0 \<le> fl x" by (rule fl_nonneg)
  from assms(1,2) have "fl x \<le> fl b" by (rule fl_mono_nonneg)
  then show "fl x \<le> b" by (simp only: assms(3))
qed

lemma ratio_between:
  assumes "c \<le> n" and "0 < n"
  shows "0 \<le> fl (fl (real c) / fl (real n)) \<and> fl (fl (real c) / fl (real n)) \<le> 1"
proof -
  have c0: "0 \<le> fl (real c)" by (rule fl_nonneg) simp
  from assms(2) have "1 \<le> real n" by simp
  then have "fl 1 \<le> fl (real n)" by (intro fl_mono_nonneg) simp_all
  then have n1: "1 \<le> fl (real n)" by simp
  from assms(1) have "fl (real c) \<le> fl (real n)" by (intro fl_mono_nonneg) simp_all
  with c0 n1 have q: "0 \<le> fl (real c) / fl (real n)" "fl (real c) / fl (real n) \<le> 1"
    by simp_all
  from q show ?thesis by (intro fl_between) simp_all
qed

lemma percent_between:
  assumes "0 \<le> q \<and> q \<le> 1"
  shows "0 \<le> fl (q * 100) \<and> fl (q * 100) \<le> 100"
  using assms by (intro fl_between) simp_all

lemma completion_rate_between:
  "0 \<le> completion_rate mode T pid \<and> completion_rate mode T pid \<le> 100"
proof -
  let ?rows = "filter (\<lambda>b. mode = use_variable \<or> bk_provider_id b \<noteq> None) (t_bookings T)"
  let ?c = "length (filter (\<lambda>b. bk_status b = ''COMPLETED'') ?rows)"
  show ?thesis
  proof (cases "length ?rows = 0")
    case True
    then show ?thesis by (simp add: completion_rate_def Let_def)
  next
    case False
    then have "0 < length ?rows" by simp
    moreover have "?c \<le> length ?rows" by (rule length_filter_le)
    ultimately have "0 \<le> fl (fl (real ?c) / fl (real (length ?rows)))
        \<and> fl (fl (real ?c) / fl (real (length ?rows))) \<le> 1"
      by (intro ratio_between)
    then have "0 \<le> fl (fl (fl (real ?c) / fl (real (length ?rows))) * 100)
        \<and> fl (fl (fl (real ?c) / fl (real (length ?rows))) * 100) \<le> 100"
      by (rule percent_between)
    with False show ?thesis by (simp add: completion_rate_def Let_def)
  qed
qed

lemma verification_score_between:
  "0 \<le> verification_score T pid \<and> verification_score T pid \<le> 100"
proof -
  let ?docs = "filter (\<lambda>v. vd_user_id v = pid) (t_verification_docs T)"
  let ?c = "length (filter (\<lambda>v. vd_status v = ''VERIFIED'') ?docs)"
  show ?thesis
  proof (cases "length ?docs = 0")
    case True
    then show ?thesis by (simp add: verification_score_def Let_def)
  next
    case False
    then have "0 < length ?docs" by simp
    moreover have "?c \<le> length ?docs" by (rule length_filter_le)
    ultimately have "0 \<le> fl (fl (real ?c) / fl (real (length ?docs)))
        \<and> fl (fl (real ?c) / fl (real (length ?docs))) \<le> 1"
      by (intro ratio_between)
    then have "0 \<le> fl (fl (fl (real ?c) / fl (real (length ?docs))) * 100)
        \<and> fl (fl (fl (real ?c) / fl (real (length ?docs))) * 100) \<le> 100"
      by (rule percent_between)
    with False show ?thesis by (simp add: verification_score_def Let_def)
  qed
qed

lemma sum_list_between:
  assumes "\<forall>x \<in> set xs. 0 \<le> x \<and> x \<le> (5::int)"
  shows "0 \<le> sum_list xs \<and> sum_list xs \<le> 5 * int (length xs)"
  using assms by (induction xs) auto

lemma avg_rating_between:
  assumes "\<forall>r \<in> set (t_reviews T). rv_target_id r = pid \<longrightarrow> 0 \<le> rv_rating r \<and> rv_rating r \<le> 5"
  shows "0 \<le> avg_rating T pid \<and> avg_rating T pid \<le> 100"
proof -
  let ?rs = "map rv_rating (filter (\<lambda>r. rv_target_id r = pid) (t_reviews T))"
  have "\<forall>x \<in> set ?rs. 0 \<le> x \<and> x \<le> 5" using assms by auto
  then have s: "0 \<le> sum_list ?rs" "sum_list ?rs \<le> 5 * int (length ?rs)"
    using sum_list_between by blast+
  show ?thesis
  proof (cases "?rs = []")
    case True
    then show ?thesis by (simp add: avg_rating_def Let_def)
  next
    case False
    then have n: "0 < real (length ?rs)" by simp
    define m where "m = real_of_int (sum_list ?rs) / real (length ?rs)"
    from s(2) have "real_of_int (sum_list ?rs) \<le> real_of_int (5 * int (length ?rs))"
      by (simp only: of_int_le_iff)
    then have "real_of_int (sum_list ?rs) \<le> 5 * real (length ?rs)" by simp
    with n have hi: "m \<le> 5"
      unfolding m_def by (simp add: pos_divide_le_eq)
    from s(1) n have lo: "0 \<le> m"
      unfolding m_def by simp
    from lo hi have "0 \<le> m * 20" "m * 20 \<le> 100" by simp_all
    then have "0 \<le> fl (m * 20) \<and> fl (m * 20) \<le> 100"
      by (intro fl_between) simp_all
    with False show ?thesis
      unfolding m_def by (simp add: avg_rating_def Let_def)
  qed
qed

lemma response_score_between:
  assumes "response_score T pid = Some rs"
  shows "0 \<le> rs \<and> rs \<le> 100"
  using assms by (auto simp: response_score_def split: option.splits if_splits)

lemma weighted_between:
  assumes "0 \<le> x \<and> x \<le> 100" and "0 \<le> w" and "fl (100 * fl w) = b"
  shows "0 \<le> fl (x * fl w) \<and> fl (x * fl w) \<le> b"
proof
  from assms(2) have w: "0 \<le> fl w" by (rule fl_nonneg)
  with assms(1) have p: "0 \<le> x * fl w" by simp
  then show "0 \<le> fl (x * fl w)" by (rule fl_nonneg)
  from assms(1) w have "x * fl w \<le> 100 * fl w" by (simp add: mult_right_mono)
  with p have "fl (x * fl w) \<le> fl (100 * fl w)" by (rule fl_mono_nonneg)
  then show "fl (x * fl w) \<le> b" by (simp only: assms(3))
qed

lemma sum_between:
  assumes "0 \<le> a \<and> a \<le> p" and "0 \<le> b \<and> b \<le> q" and "fl (p + q) = r"
  shows "0 \<le> fl (a + b) \<and> fl (a + b) \<le> r"
proof
  from assms(1,2) have s: "0 \<le> a + b" by simp
  then show "0 \<le> fl (a + b)" by (rule fl_nonneg)
  from assms(1,2) have "a + b \<le> p + q" by simp
  with s have "fl (a + b) \<le> fl (p + q)" by (rule fl_mono_nonneg)
  then show "fl (a + b) \<le> r" by (simp only: assms(3))
qed

text \<open>
  C8 (as amended). The function does not clamp its result. Whenever it returns a score
  and every rating of the provider lies between 0 and 5, the score lies in the closed
  interval from 0 to 100, all-zero history included.
\<close>

theorem trust_score_range:
  "calculate_provider_trust_score mode T pid = Inr (Some s)
   \<and> (\<forall>r \<in> set (t_reviews T). rv_target_id r = pid \<longrightarrow> 0 \<le> rv_rating r \<and> rv_rating r \<le> 5)
   \<longrightarrow> 0 \<le> s \<and> s \<le> 100"
proof
  assume a: "calculate_provider_trust_score mode T pid = Inr (Some s)
   \<and> (\<forall>r \<in> set (t_reviews T). rv_target_id r = pid \<longrightarrow> 0 \<le> rv_rating r \<and> rv_rating r \<le> 5)"
  then obtain rs where rs: "response_score T pid = Some rs"
    and s: "s = fl (fl (fl (fl (completion_rate mode T pid * fl (4 / 10))
                                 + fl (avg_rating T pid * fl (3 / 10)))
                             + fl (verification_score T pid * fl (2 / 10)))
                         + fl (rs * fl (1 / 10)))"
    by (auto simp: calculate_provider_trust_score_def split: if_splits option.splits)
  have c: "0 \<le> fl (completion_rate mode T pid * fl (4 / 10))
      \<and> fl (completion_rate mode T pid * fl (4 / 10)) \<le> 40"
    by (rule weighted_between [OF completion_rate_between _ fl_100_w4]) simp
  have r: "0 \<le> fl (avg_rating T pid * fl (3 / 10))
      \<and> fl (avg_rating T pid * fl (3 / 10)) \<le> 30"
    using a by (intro weighted_between [OF avg_rating_between _ fl_100_w3]) simp_all
  have v: "0 \<le> fl (verification_score T pid * fl (2 / 10))
      \<and> fl (verification_score T pid * fl (2 / 10)) \<le> 20"
    by (rule weighted_between [OF verification_score_between _ fl_100_w2]) simp
  have p: "0 \<le> fl (rs * fl (1 / 10)) \<and> fl (rs * fl (1 / 10)) \<le> 10"
    by (rule weighted_between [OF response_score_between [OF rs] _ fl_100_w1]) simp
  from c r have s1: "0 \<le> fl (fl (completion_rate mode T pid * fl (4 / 10))
        + fl (avg_rating T pid * fl (3 / 10)))
      \<and> fl (fl (completion_rate mode T pid * fl (4 / 10))
        + fl (avg_rating T pid * fl (3 / 10))) \<le> 70"
    by (rule sum_between) (simp add: fl_int_70)
  from s1 v have s2: "0 \<le> fl (fl (fl (completion_rate mode T pid * fl (4 / 10))
        + fl (avg_rating T pid * fl (3 / 10))) + fl (verification_score T pid * fl (2 / 10)))
      \<and> fl (fl (fl (completion_rate mode T pid * fl (4 / 10))
        + fl (avg_rating T pid * fl (3 / 10))) + fl (verification_score T pid * fl (2 / 10))) \<le> 90"
    by (rule sum_between) (simp add: fl_int_90)
  from s2 p show "0 \<le> s \<and> s \<le> 100"
    unfolding s by (rule sum_between) simp
qed


lemma components_tables3:
  "completion_rate use_variable tables3 ''pA'' = 100"
  "avg_rating tables3 ''pA'' = 100"
  "verification_score tables3 ''pA'' = 100"
  "response_score tables3 ''pA'' = Some 100"
  by (simp_all add: completion_rate_def avg_rating_def verification_score_def response_score_def
      tables3_def tables2_def Let_def fl_consts)

lemma trust_score_tables3:
  "calculate_provider_trust_score use_variable tables3 ''pA'' = Inr (Some 100)"
  by (simp add: calculate_provider_trust_score_def components_tables3 fl_consts)

theorem trust_score_range_witness:
  "calculate_provider_trust_score use_variable tables3 ''pA'' = Inr (Some 100)
   \<and> map rv_rating (t_reviews tables3) = [5]
   \<and> (0 :: real) \<le> 100 \<and> (100 :: real) \<le> 100"
proof -
  have r: "\<forall>r \<in> set (t_reviews tables3). rv_target_id r = ''pA''
      \<longrightarrow> 0 \<le> rv_rating r \<and> rv_rating r \<le> 5"
    by (simp add: tables3_def)
  have m: "map rv_rating (t_reviews tables3) = [5]"
    by (simp add: tables3_def)
  from trust_score_range [of use_variable tables3 "''pA''" 100] trust_score_tables3 r
  have "(0 :: real) \<le> 100 \<and> (100 :: real) \<le> 100"
    by blast
  with trust_score_tables3 m show ?thesis by blast
qed

end
